theory Spec2Isabelle
  imports Complex_Main
begin

section \<open>JavaScript values used by the analyze-meal function\<close>

text \<open>
  A JavaScript string is a sequence of UTF-16 code units; it is modelled as the list of
  its code units, so that \<open>length\<close>, \<open>take\<close> and the character classes are those of
  the runtime. \<open>js ''abc''\<close> is the string written \<^verbatim>\<open>'abc'\<close> in the source.
  A JavaScript number is modelled by the real number it denotes: the arithmetic of the
  source (\<open>*10\<close>, \<open>/10\<close>, \<open>+\<close>, \<open>Math.round\<close>) is exact here, where the
  runtime rounds to the nearest double.
\<close>

type_synonym jsstring = "nat list"

definition js :: "string \<Rightarrow> jsstring" where
  "js s = map of_char s"

text \<open>The values \<^verbatim>\<open>JSON.parse\<close> and \<^verbatim>\<open>req.json()\<close> produce. An object keeps its
  members in source order; a later member with the same key overrides an earlier one
  when a property is read (see \<open>property\<close>).\<close>

datatype json =
    JNull
  | JBool bool
  | JNumber real
  | JString jsstring
  | JArray "json list"
  | JObject "(jsstring \<times> json) list"

text \<open>\<^verbatim>\<open>v.key\<close> for a parsed value \<open>v\<close> other than \<^verbatim>\<open>null\<close>: \<open>None\<close> is
  \<^verbatim>\<open>undefined\<close>. None of the keys the source reads is a property of the String, Number,
  Boolean or Array prototypes, so only objects answer.\<close>

fun property :: "json \<Rightarrow> jsstring \<Rightarrow> json option" where
  "property (JObject ms) k = map_of (rev ms) k"
| "property _ k = None"

text \<open>JavaScript truthiness of an optional value (\<open>None\<close> is \<^verbatim>\<open>undefined\<close>).\<close>

fun truthy :: "json option \<Rightarrow> bool" where
  "truthy None = False"
| "truthy (Some JNull) = False"
| "truthy (Some (JBool b)) = b"
| "truthy (Some (JNumber r)) = (r \<noteq> 0)"
| "truthy (Some (JString s)) = (s \<noteq> [])"
| "truthy (Some (JArray _)) = True"
| "truthy (Some (JObject _)) = True"

text \<open>\<^verbatim>\<open>Math.round\<close>: the nearest integer, a tie going towards \<open>+\<infinity>\<close>.\<close>

definition Math_round :: "real \<Rightarrow> real" where
  "Math_round x = of_int \<lfloor>x + 1 / 2\<rfloor>"

subsection \<open>Whitespace, \<^verbatim>\<open>trim\<close> and the string predicates\<close>

text \<open>The code units \<^verbatim>\<open>String.prototype.trim\<close> removes and the class \<^verbatim>\<open>\s\<close> of a
  regular expression matches: WhiteSpace and LineTerminator of ECMA-262.\<close>

definition is_space :: "nat \<Rightarrow> bool" where
  "is_space c \<longleftrightarrow>
     (9 \<le> c \<and> c \<le> 13) \<or> c = 32 \<or> c = 160 \<or> c = 5760 \<or> (8192 \<le> c \<and> c \<le> 8202)
     \<or> c = 8232 \<or> c = 8233 \<or> c = 8239 \<or> c = 8287 \<or> c = 12288 \<or> c = 65279"

text \<open>\<open>drop_trailing P s\<close> removes the longest suffix of \<open>s\<close> whose elements all
  satisfy \<open>P\<close>.\<close>

fun drop_trailing :: "(nat \<Rightarrow> bool) \<Rightarrow> jsstring \<Rightarrow> jsstring" where
  "drop_trailing P [] = []"
| "drop_trailing P (c # cs) =
     (case drop_trailing P cs of
        [] \<Rightarrow> (if P c then [] else [c])
      | r # rs \<Rightarrow> c # r # rs)"

text \<open>\<open>chop3 s\<close> is \<open>s\<close> without its last three code units.\<close>

fun chop3 :: "jsstring \<Rightarrow> jsstring" where
  "chop3 (a # b # c # d # r) = a # chop3 (b # c # d # r)"
| "chop3 _ = []"

definition trim_end :: "jsstring \<Rightarrow> jsstring" where
  "trim_end s = drop_trailing is_space s"

definition trim :: "jsstring \<Rightarrow> jsstring" where
  "trim s = trim_end (dropWhile is_space s)"

definition startsWith :: "jsstring \<Rightarrow> jsstring \<Rightarrow> bool" where
  "startsWith s p \<longleftrightarrow> take (length p) s = p"

text \<open>\<^verbatim>\<open>s.endsWith(p)\<close>: some suffix of \<open>s\<close> is \<open>p\<close>.\<close>

fun endsWith :: "jsstring \<Rightarrow> jsstring \<Rightarrow> bool" where
  "endsWith [] p \<longleftrightarrow> p = []"
| "endsWith (c # cs) p \<longleftrightarrow> c # cs = p \<or> endsWith cs p"

text \<open>Case folding of a regular expression with the \<^verbatim>\<open>i\<close> flag and no \<^verbatim>\<open>u\<close> flag,
  on the letters the patterns of the source contain: a code unit outside ASCII never
  matches an ASCII letter.\<close>

definition lower :: "nat \<Rightarrow> nat" where
  "lower c = (if 65 \<le> c \<and> c \<le> 90 then c + 32 else c)"

definition startsWith_ci :: "jsstring \<Rightarrow> jsstring \<Rightarrow> bool" where
  "startsWith_ci s p \<longleftrightarrow> map lower (take (length p) s) = p"

section \<open>\<^verbatim>\<open>JSON.parse\<close>\<close>

text \<open>
  \<^verbatim>\<open>JSON.parse\<close> is the runtime's; the source only calls it. Its model reads the text one
  code unit at a time, following the JSON grammar (ECMA-404, which ECMA-262 adopts for
  \<^verbatim>\<open>JSON.parse\<close>): the mode says what may come next, the stack holds the arrays and
  objects that are still open. \<open>None\<close> is the \<^verbatim>\<open>SyntaxError\<close> it throws.
\<close>

datatype frame =
    FArr "json list"
  | FObj "(jsstring \<times> json) list"
  | FKey "(jsstring \<times> json) list" jsstring

datatype numphase = NMinus | NZero | NInt | NDot | NFrac | NE | NESign | NExp

record numacc =
  neg :: bool
  mant :: nat
  fracdigits :: nat
  expneg :: bool
  expo :: nat

datatype mode =
    Value
  | ValueOrClose
  | KeyOrClose
  | Key
  | Colon
  | CommaOrClose
  | End json
  | Str bool jsstring
  | StrEsc bool jsstring
  | StrU bool jsstring "nat list"
  | Num numphase numacc
  | Lit jsstring json

type_synonym pstate = "mode \<times> frame list"

definition json_ws :: "nat \<Rightarrow> bool" where
  "json_ws c \<longleftrightarrow> c = 32 \<or> c = 9 \<or> c = 10 \<or> c = 13"

definition is_digit :: "nat \<Rightarrow> bool" where
  "is_digit c \<longleftrightarrow> 48 \<le> c \<and> c \<le> 57"

definition hexval :: "nat \<Rightarrow> nat option" where
  "hexval c =
     (if 48 \<le> c \<and> c \<le> 57 then Some (c - 48)
      else if 65 \<le> c \<and> c \<le> 70 then Some (c - 55)
      else if 97 \<le> c \<and> c \<le> 102 then Some (c - 87)
      else None)"

definition numval :: "numacc \<Rightarrow> real" where
  "numval a =
     (let m = of_nat (mant a) / 10 ^ fracdigits a;
          v = (if expneg a then m / 10 ^ expo a else m * 10 ^ expo a)
      in if neg a then - v else v)"

text \<open>A value is complete: it is the result, an element of the open array, or the value
  of the pending key of the open object.\<close>

fun complete :: "json \<Rightarrow> frame list \<Rightarrow> pstate option" where
  "complete v [] = Some (End v, [])"
| "complete v (FArr es # st) = Some (CommaOrClose, FArr (v # es) # st)"
| "complete v (FKey ms k # st) = Some (CommaOrClose, FObj ((k, v) # ms) # st)"
| "complete v (FObj ms # st) = None"

definition start_value :: "nat \<Rightarrow> frame list \<Rightarrow> pstate option" where
  "start_value c st =
     (let z = \<lparr>neg = False, mant = 0, fracdigits = 0, expneg = False, expo = 0\<rparr> in
      if c = 123 then Some (KeyOrClose, FObj [] # st)
      else if c = 91 then Some (ValueOrClose, FArr [] # st)
      else if c = 34 then Some (Str False [], st)
      else if c = 45 then Some (Num NMinus (z\<lparr>neg := True\<rparr>), st)
      else if c = 48 then Some (Num NZero z, st)
      else if is_digit c then Some (Num NInt (z\<lparr>mant := c - 48\<rparr>), st)
      else if c = 116 then Some (Lit (js ''rue'') (JBool True), st)
      else if c = 102 then Some (Lit (js ''alse'') (JBool False), st)
      else if c = 110 then Some (Lit (js ''ull'') JNull, st)
      else None)"

text \<open>The next code unit of a number, if it continues the number.\<close>

definition num_step :: "numphase \<Rightarrow> numacc \<Rightarrow> nat \<Rightarrow> (numphase \<times> numacc) option" where
  "num_step ph a c =
     (case ph of
        NMinus \<Rightarrow> (if c = 48 then Some (NZero, a)
                   else if is_digit c then Some (NInt, a\<lparr>mant := c - 48\<rparr>) else None)
      | NZero \<Rightarrow> (if c = 46 then Some (NDot, a)
                  else if c = 101 \<or> c = 69 then Some (NE, a) else None)
      | NInt \<Rightarrow> (if is_digit c then Some (NInt, a\<lparr>mant := mant a * 10 + (c - 48)\<rparr>)
                 else if c = 46 then Some (NDot, a)
                 else if c = 101 \<or> c = 69 then Some (NE, a) else None)
      | NDot \<Rightarrow> (if is_digit c
                 then Some (NFrac, a\<lparr>mant := mant a * 10 + (c - 48), fracdigits := 1\<rparr>)
                 else None)
      | NFrac \<Rightarrow> (if is_digit c
                  then Some (NFrac, a\<lparr>mant := mant a * 10 + (c - 48),
                                      fracdigits := fracdigits a + 1\<rparr>)
                  else if c = 101 \<or> c = 69 then Some (NE, a) else None)
      | NE \<Rightarrow> (if c = 43 then Some (NESign, a)
               else if c = 45 then Some (NESign, a\<lparr>expneg := True\<rparr>)
               else if is_digit c then Some (NExp, a\<lparr>expo := c - 48\<rparr>) else None)
      | NESign \<Rightarrow> (if is_digit c then Some (NExp, a\<lparr>expo := c - 48\<rparr>) else None)
      | NExp \<Rightarrow> (if is_digit c then Some (NExp, a\<lparr>expo := expo a * 10 + (c - 48)\<rparr>)
                 else None))"

definition num_final :: "numphase \<Rightarrow> bool" where
  "num_final ph \<longleftrightarrow> ph = NZero \<or> ph = NInt \<or> ph = NFrac \<or> ph = NExp"

text \<open>One code unit in a mode other than \<open>Num\<close>.\<close>

definition step_plain :: "pstate \<Rightarrow> nat \<Rightarrow> pstate option" where
  "step_plain s c =
     (case s of (m, st) \<Rightarrow>
      (case m of
        Value \<Rightarrow> (if json_ws c then Some (Value, st) else start_value c st)
      | ValueOrClose \<Rightarrow>
          (if json_ws c then Some (ValueOrClose, st)
           else if c = 93 then
             (case st of FArr es # st' \<Rightarrow> complete (JArray (rev es)) st' | _ \<Rightarrow> None)
           else start_value c st)
      | KeyOrClose \<Rightarrow>
          (if json_ws c then Some (KeyOrClose, st)
           else if c = 125 then
             (case st of FObj ms # st' \<Rightarrow> complete (JObject (rev ms)) st' | _ \<Rightarrow> None)
           else if c = 34 then Some (Str True [], st)
           else None)
      | Key \<Rightarrow>
          (if json_ws c then Some (Key, st)
           else if c = 34 then Some (Str True [], st)
           else None)
      | Colon \<Rightarrow>
          (if json_ws c then Some (Colon, st)
           else if c = 58 then Some (Value, st)
           else None)
      | CommaOrClose \<Rightarrow>
          (if json_ws c then Some (CommaOrClose, st)
           else (case st of
                   FArr es # st' \<Rightarrow>
                     (if c = 44 then Some (Value, st)
                      else if c = 93 then complete (JArray (rev es)) st'
                      else None)
                 | FObj ms # st' \<Rightarrow>
                     (if c = 44 then Some (Key, st)
                      else if c = 125 then complete (JObject (rev ms)) st'
                      else None)
                 | _ \<Rightarrow> None))
      | End v \<Rightarrow> (if json_ws c then Some (End v, st) else None)
      | Str k acc \<Rightarrow>
          (if c = 34 then
             (if k then
                (case st of FObj ms # st' \<Rightarrow> Some (Colon, FKey ms (rev acc) # st')
                 | _ \<Rightarrow> None)
              else complete (JString (rev acc)) st)
           else if c = 92 then Some (StrEsc k acc, st)
           else if c < 32 then None
           else Some (Str k (c # acc), st))
      | StrEsc k acc \<Rightarrow>
          (if c = 34 \<or> c = 92 \<or> c = 47 then Some (Str k (c # acc), st)
           else if c = 98 then Some (Str k (8 # acc), st)
           else if c = 102 then Some (Str k (12 # acc), st)
           else if c = 110 then Some (Str k (10 # acc), st)
           else if c = 114 then Some (Str k (13 # acc), st)
           else if c = 116 then Some (Str k (9 # acc), st)
           else if c = 117 then Some (StrU k acc [], st)
           else None)
      | StrU k acc ds \<Rightarrow>
          (case hexval c of
             None \<Rightarrow> None
           | Some d \<Rightarrow>
               (if length ds = 3
                then Some (Str k (foldl (\<lambda>n x. n * 16 + x) 0 (ds @ [d]) # acc), st)
                else Some (StrU k acc (ds @ [d]), st)))
      | Lit rest v \<Rightarrow>
          (case rest of
             [] \<Rightarrow> None
           | x # xs \<Rightarrow>
               (if c \<noteq> x then None
                else if xs = [] then complete v st
                else Some (Lit xs v, st)))
      | Num ph a \<Rightarrow> None))"

text \<open>One code unit: a number ends at the first code unit that does not continue it,
  and that code unit is then read after the completed number.\<close>

definition step :: "pstate \<Rightarrow> nat \<Rightarrow> pstate option" where
  "step s c =
     (case s of
        (Num ph a, st) \<Rightarrow>
          (case num_step ph a c of
             Some (ph', a') \<Rightarrow> Some (Num ph' a', st)
           | None \<Rightarrow>
               (if num_final ph
                then (case complete (JNumber (numval a)) st of
                        None \<Rightarrow> None
                      | Some s' \<Rightarrow> step_plain s' c)
                else None))
      | _ \<Rightarrow> step_plain s c)"

fun run :: "pstate \<Rightarrow> jsstring \<Rightarrow> pstate option" where
  "run s [] = Some s"
| "run s (c # cs) = (case step s c of None \<Rightarrow> None | Some s' \<Rightarrow> run s' cs)"

definition JSON_parse :: "jsstring \<Rightarrow> json option" where
  "JSON_parse text =
     (case run (Value, []) text of
        Some (End v, []) \<Rightarrow> Some v
      | Some (Num ph a, []) \<Rightarrow> (if num_final ph then Some (JNumber (numval a)) else None)
      | _ \<Rightarrow> None)"


section \<open>Response normalisers (gemini-helper.ts, openai-helper.ts, gemini-text-helper.ts)\<close>

datatype confidence = Low | Medium | High

record MacroEstimate =
  calories :: real
  protein :: real
  carbs :: real
  fat :: real
  confidence :: confidence
  meal_description :: "json option"

text \<open>What an adapter or its normaliser throws. The spec calls the normaliser's
  failures \<open>MalformedResponse\<close> and the others \<open>ProviderError\<close>.\<close>

datatype adapter_error =
    API_key_not_configured
  | Description_too_short_for_analysis
  | Upstream_error
  | No_text_in_response
  | SyntaxError
  | TypeError
  | Failed_to_parse_AI_response_as_JSON
  | AI_response_appears_truncated jsstring
  | Failed_to_parse_AI_response_Response jsstring
  | Invalid_response_structure

text \<open>\<^verbatim>\<open>s.replace(/^p\s*/, '')\<close> and, with \<open>ci\<close>, \<^verbatim>\<open>s.replace(/^p\s*/i, '')\<close> for a
  literal \<open>p\<close> written in lower case.\<close>

definition strip_prefix_re :: "bool \<Rightarrow> jsstring \<Rightarrow> jsstring \<Rightarrow> jsstring" where
  "strip_prefix_re ci p s =
     (if (if ci then startsWith_ci s p else startsWith s p)
      then dropWhile is_space (drop (length p) s)
      else s)"

text \<open>\<^verbatim>\<open>s.replace(/\s*```$/, '')\<close>: the leftmost match is the closing fence at the very
  end of the text together with all the whitespace before it.\<close>

definition strip_fence_end :: "jsstring \<Rightarrow> jsstring" where
  "strip_fence_end s =
     (if endsWith s (js ''```'') then trim_end (chop3 s) else s)"

text \<open>\<^verbatim>\<open>s.match(/\{[\s\S]*\}/)\<close>: from the first \<open>{\<close> to the last \<open>}\<close> after it.\<close>

definition match_braces :: "jsstring \<Rightarrow> jsstring option" where
  "match_braces s =
     (case drop_trailing (\<lambda>c. c \<noteq> 125) (dropWhile (\<lambda>c. c \<noteq> 123) s) of
        [] \<Rightarrow> None
      | r \<Rightarrow> Some r)"

text \<open>\<^verbatim>\<open>if (!cleaned.startsWith('{')) { const m = cleaned.match(...); if (m) cleaned = m[0] }\<close>\<close>

definition extract_object :: "jsstring \<Rightarrow> jsstring" where
  "extract_object cleaned =
     (if \<not> startsWith cleaned (js ''{'')
      then (case match_braces cleaned of Some m \<Rightarrow> m | None \<Rightarrow> cleaned)
      else cleaned)"

text \<open>\<^verbatim>\<open>typeof v === 'number'\<close>, with the number.\<close>

fun number_of :: "json option \<Rightarrow> real option" where
  "number_of (Some (JNumber r)) = Some r"
| "number_of _ = None"

text \<open>\<^verbatim>\<open>['low', 'medium', 'high'].includes(v)\<close>, with the label.\<close>

definition confidence_of :: "json option \<Rightarrow> confidence option" where
  "confidence_of v =
     (if v = Some (JString (js ''low'')) then Some Low
      else if v = Some (JString (js ''medium'')) then Some Medium
      else if v = Some (JString (js ''high'')) then Some High
      else None)"

text \<open>gemini-helper.ts, \<^verbatim>\<open>parseAIResponse\<close>, lines 168-185: the candidate payload,
  the steps applied from the innermost outwards.\<close>

definition gemini_cleaned :: "jsstring \<Rightarrow> jsstring" where
  "gemini_cleaned text =
     extract_object
      (trim
        (strip_fence_end
          (strip_prefix_re False (js ''```'')
            (strip_prefix_re True (js ''```jsons'')
              (strip_prefix_re True (js ''```json'')
                (trim text))))))"

text \<open>gemini-helper.ts, \<^verbatim>\<open>parseAIResponse\<close>, lines 189-217. Reading a property of
  \<^verbatim>\<open>null\<close> throws a \<^verbatim>\<open>TypeError\<close>.\<close>

definition gemini_parseAIResponse :: "jsstring \<Rightarrow> adapter_error + MacroEstimate" where
  "gemini_parseAIResponse text =
     (let cleaned = gemini_cleaned text in
      case JSON_parse cleaned of
        None \<Rightarrow> Inl Failed_to_parse_AI_response_as_JSON
      | Some parsed \<Rightarrow>
          if parsed = JNull then Inl TypeError
          else
            (case (number_of (property parsed (js ''calories'')),
                   number_of (property parsed (js ''protein'')),
                   number_of (property parsed (js ''carbs'')),
                   number_of (property parsed (js ''fat'')),
                   confidence_of (property parsed (js ''confidence''))) of
               (Some c, Some p, Some cb, Some f, Some cf) \<Rightarrow>
                 Inr \<lparr>calories = Math_round c,
                      protein = Math_round (p * 10) / 10,
                      carbs = Math_round (cb * 10) / 10,
                      fat = Math_round (f * 10) / 10,
                      confidence = cf,
                      meal_description =
                        (let d = property parsed (js ''meal_description'')
                         in if truthy d then d else None)\<rparr>
             | _ \<Rightarrow> Inl Invalid_response_structure))"

text \<open>openai-helper.ts, \<^verbatim>\<open>parseAIResponse\<close>, lines 119-140: no cleaning beyond \<^verbatim>\<open>trim\<close>,
  the \<^verbatim>\<open>SyntaxError\<close> of \<^verbatim>\<open>JSON.parse\<close> is not caught, and no description is kept.\<close>

definition openai_parseAIResponse :: "jsstring \<Rightarrow> adapter_error + MacroEstimate" where
  "openai_parseAIResponse text =
     (case JSON_parse (trim text) of
        None \<Rightarrow> Inl SyntaxError
      | Some parsed \<Rightarrow>
          if parsed = JNull then Inl TypeError
          else
            (case (number_of (property parsed (js ''calories'')),
                   number_of (property parsed (js ''protein'')),
                   number_of (property parsed (js ''carbs'')),
                   number_of (property parsed (js ''fat'')),
                   confidence_of (property parsed (js ''confidence''))) of
               (Some c, Some p, Some cb, Some f, Some cf) \<Rightarrow>
                 Inr \<lparr>calories = Math_round c,
                      protein = Math_round (p * 10) / 10,
                      carbs = Math_round (cb * 10) / 10,
                      fat = Math_round (f * 10) / 10,
                      confidence = cf,
                      meal_description = None\<rparr>
             | _ \<Rightarrow> Inl Invalid_response_structure))"

text \<open>gemini-text-helper.ts, \<^verbatim>\<open>parseTextAnalysisResponse\<close>, lines 176-188: the candidate
  payload (there is no \<^verbatim>\<open>```jsons\<close> step here).\<close>

definition text_cleaned :: "jsstring \<Rightarrow> jsstring" where
  "text_cleaned text =
     extract_object
      (trim
        (strip_fence_end
          (strip_prefix_re False (js ''```'')
            (strip_prefix_re True (js ''```json'')
              (trim text)))))"

text \<open>gemini-text-helper.ts, \<^verbatim>\<open>parseTextAnalysisResponse\<close>, lines 190-223.\<close>

definition parseTextAnalysisResponse :: "jsstring \<Rightarrow> adapter_error + MacroEstimate" where
  "parseTextAnalysisResponse text =
     (let cleaned = text_cleaned text in
      case JSON_parse cleaned of
        None \<Rightarrow>
          if endsWith cleaned (js '','') \<or> \<not> endsWith cleaned (js ''}'')
          then Inl (AI_response_appears_truncated (take 100 cleaned))
          else Inl (Failed_to_parse_AI_response_Response (take 200 cleaned))
      | Some parsed \<Rightarrow>
          if parsed = JNull then Inl TypeError
          else
            (case (number_of (property parsed (js ''calories'')),
                   number_of (property parsed (js ''protein'')),
                   number_of (property parsed (js ''carbs'')),
                   number_of (property parsed (js ''fat'')),
                   confidence_of (property parsed (js ''confidence''))) of
               (Some c, Some p, Some cb, Some f, Some cf) \<Rightarrow>
                 Inr \<lparr>calories = Math_round c,
                      protein = Math_round (p * 10) / 10,
                      carbs = Math_round (cb * 10) / 10,
                      fat = Math_round (f * 10) / 10,
                      confidence = cf,
                      meal_description =
                        (let d = property parsed (js ''meal_description'')
                         in if truthy d then d else None)\<rparr>
             | _ \<Rightarrow> Inl Invalid_response_structure))"

section \<open>Provider adapters\<close>

text \<open>
  The network is outside the model. What an adapter obtains from its provider is an
  input: either the call could not be completed (the image fetch or the request threw
  or timed out, the status was not 2xx, the body held no candidate, part or choice), or
  it delivered a text. The adapter so reduced keeps the checks the source makes itself:
  the API key, the description length of the text adapter, the empty text, and the
  normaliser.
\<close>

datatype upstream = Upstream_failed | Upstream_text jsstring

text \<open>An environment variable or an optional string is \<open>None\<close> when undefined; it is
  truthy when it is a non-empty string.\<close>

definition truthy_str :: "jsstring option \<Rightarrow> bool" where
  "truthy_str v \<longleftrightarrow> (case v of None \<Rightarrow> False | Some s \<Rightarrow> s \<noteq> [])"

text \<open>gemini-helper.ts, \<^verbatim>\<open>analyzeWithGemini\<close>, lines 42-142.\<close>

definition analyzeWithGemini ::
  "jsstring option \<Rightarrow> upstream \<Rightarrow> adapter_error + MacroEstimate" where
  "analyzeWithGemini GEMINI_API_KEY up =
     (if \<not> truthy_str GEMINI_API_KEY then Inl API_key_not_configured
      else case up of
        Upstream_failed \<Rightarrow> Inl Upstream_error
      | Upstream_text text \<Rightarrow>
          if text = [] then Inl No_text_in_response else gemini_parseAIResponse text)"

text \<open>openai-helper.ts, \<^verbatim>\<open>analyzeWithOpenAI\<close>, lines 36-114.\<close>

definition analyzeWithOpenAI ::
  "jsstring option \<Rightarrow> upstream \<Rightarrow> adapter_error + MacroEstimate" where
  "analyzeWithOpenAI OPENAI_API_KEY up =
     (if \<not> truthy_str OPENAI_API_KEY then Inl API_key_not_configured
      else case up of
        Upstream_failed \<Rightarrow> Inl Upstream_error
      | Upstream_text text \<Rightarrow>
          if text = [] then Inl No_text_in_response else openai_parseAIResponse text)"

text \<open>gemini-text-helper.ts, \<^verbatim>\<open>analyzeTextWithGemini\<close>, lines 100-169.\<close>

definition analyzeTextWithGemini ::
  "jsstring option \<Rightarrow> jsstring \<Rightarrow> upstream \<Rightarrow> adapter_error + MacroEstimate" where
  "analyzeTextWithGemini GEMINI_API_KEY description up =
     (if \<not> truthy_str GEMINI_API_KEY then Inl API_key_not_configured
      else if description = [] \<or> length (trim description) < 5
        then Inl Description_too_short_for_analysis
      else case up of
        Upstream_failed \<Rightarrow> Inl Upstream_error
      | Upstream_text text \<Rightarrow>
          if text = [] then Inl No_text_in_response else parseTextAnalysisResponse text)"

section \<open>Request validation (validators.ts)\<close>

record AnalyzeMealRequest =
  user_id :: jsstring
  image_url :: "jsstring option"
  description :: "jsstring option"

datatype ValidationError =
    Request_body_must_be_a_JSON_object
  | User_id_is_required_and_must_be_a_string
  | User_id_must_be_a_valid_UUID
  | Image_url_must_be_a_string_if_provided
  | Image_url_must_be_a_valid_HTTP_HTTPS_URL
  | Description_must_be_a_string_if_provided
  | Either_image_url_or_description_must_be_provided
  | Description_must_be_at_least_10_characters
  | Image_URL_returned_status nat
  | URL_does_not_point_to_an_image
  | Failed_to_access_image_URL

definition is_hex :: "nat \<Rightarrow> bool" where
  "is_hex c \<longleftrightarrow> is_digit c \<or> (97 \<le> c \<and> c \<le> 102) \<or> (65 \<le> c \<and> c \<le> 70)"

text \<open>\<^verbatim>\<open>/^[0-9a-f]{8}-[0-9a-f]{4}-[0-9a-f]{4}-[0-9a-f]{4}-[0-9a-f]{12}$/i.test(s)\<close>\<close>

definition uuidRegex_test :: "jsstring \<Rightarrow> bool" where
  "uuidRegex_test s \<longleftrightarrow>
     length s = 36
     \<and> list_all is_hex (take 8 s) \<and> take 1 (drop 8 s) = [45]
     \<and> list_all is_hex (take 4 (drop 9 s)) \<and> take 1 (drop 13 s) = [45]
     \<and> list_all is_hex (take 4 (drop 14 s)) \<and> take 1 (drop 18 s) = [45]
     \<and> list_all is_hex (take 4 (drop 19 s)) \<and> take 1 (drop 23 s) = [45]
     \<and> list_all is_hex (drop 24 s)"

text \<open>\<^verbatim>\<open>typeof v\<close> of an optional value.\<close>

fun is_string :: "json option \<Rightarrow> bool" where
  "is_string (Some (JString s)) = True"
| "is_string _ = False"

fun string_of :: "json option \<Rightarrow> jsstring option" where
  "string_of (Some (JString s)) = Some s"
| "string_of _ = None"

fun typeof_object :: "json \<Rightarrow> bool" where
  "typeof_object JNull = True"
| "typeof_object (JArray _) = True"
| "typeof_object (JObject _) = True"
| "typeof_object _ = False"

text \<open>validators.ts, \<^verbatim>\<open>isValidUrl\<close>, lines 69-76. \<^verbatim>\<open>new URL(url)\<close> is the runtime's URL
  parser: \<open>URL_protocol\<close> stands for it, \<open>None\<close> where it throws and the protocol of
  the parsed URL otherwise.\<close>

definition isValidUrl :: "(jsstring \<Rightarrow> jsstring option) \<Rightarrow> jsstring \<Rightarrow> bool" where
  "isValidUrl URL_protocol url =
     (case URL_protocol url of
        None \<Rightarrow> False
      | Some protocol \<Rightarrow> protocol = js ''http:'' \<or> protocol = js ''https:'')"

text \<open>validators.ts, \<^verbatim>\<open>validateRequest\<close>, lines 15-64.\<close>

definition validateRequest ::
  "(jsstring \<Rightarrow> jsstring option) \<Rightarrow> json \<Rightarrow> ValidationError + AnalyzeMealRequest" where
  "validateRequest URL_protocol data =
     (if \<not> truthy (Some data) \<or> \<not> typeof_object data
        then Inl Request_body_must_be_a_JSON_object
      else
        let req_user_id = property data (js ''user_id'');
            req_image_url = property data (js ''image_url'');
            req_description = property data (js ''description'')
        in
        if \<not> truthy req_user_id then Inl User_id_is_required_and_must_be_a_string
        else case string_of req_user_id of
          None \<Rightarrow> Inl User_id_is_required_and_must_be_a_string
        | Some uid \<Rightarrow>
            if \<not> uuidRegex_test uid then Inl User_id_must_be_a_valid_UUID
            else if req_image_url \<noteq> None \<and> \<not> is_string req_image_url
              then Inl Image_url_must_be_a_string_if_provided
            else if (case string_of req_image_url of
                       None \<Rightarrow> False
                     | Some url \<Rightarrow> url \<noteq> [] \<and> \<not> isValidUrl URL_protocol url)
              then Inl Image_url_must_be_a_valid_HTTP_HTTPS_URL
            else if req_description \<noteq> None \<and> \<not> is_string req_description
              then Inl Description_must_be_a_string_if_provided
            else if \<not> truthy req_image_url \<and> \<not> truthy req_description
              then Inl Either_image_url_or_description_must_be_provided
            else if \<not> truthy req_image_url
                    \<and> (case string_of req_description of
                          None \<Rightarrow> False
                        | Some d \<Rightarrow> d \<noteq> [] \<and> length (trim d) < 10)
              then Inl Description_must_be_at_least_10_characters
            else Inr \<lparr>user_id = uid,
                      image_url = string_of req_image_url,
                      description = string_of req_description\<rparr>)"

text \<open>The outcome of the \<^verbatim>\<open>HEAD\<close> request of \<^verbatim>\<open>validateImageUrl\<close>: \<^verbatim>\<open>fetch\<close> threw
  (network error, or the 5 s timeout), or it returned a response with a status and,
  possibly, a \<^verbatim>\<open>content-type\<close> header.\<close>

datatype head_response = Fetch_threw | Head_response nat "jsstring option"

text \<open>\<^verbatim>\<open>response.ok\<close>\<close>

definition ok :: "nat \<Rightarrow> bool" where
  "ok status \<longleftrightarrow> 200 \<le> status \<and> status \<le> 299"

text \<open>validators.ts, \<^verbatim>\<open>validateImageUrl\<close>, lines 81-99.\<close>

definition validateImageUrl :: "head_response \<Rightarrow> ValidationError + unit" where
  "validateImageUrl response =
     (case response of
        Fetch_threw \<Rightarrow> Inl Failed_to_access_image_URL
      | Head_response status contentType \<Rightarrow>
          if \<not> ok status then Inl (Image_URL_returned_status status)
          else if (case contentType of
                     None \<Rightarrow> False
                   | Some ct \<Rightarrow> ct \<noteq> [] \<and> \<not> startsWith ct (js ''image/''))
            then Inl URL_does_not_point_to_an_image
          else Inr ())"

section \<open>Usage ledger (database.ts, config.ts)\<close>

record config =
  RATE_LIMIT_DAILY :: int
  COST_LIMIT_MONTHLY_INR :: real
  GEMINI_COST_PER_IMAGE_INR :: real
  OPENAI_COST_PER_IMAGE_INR :: real
  LOW_CONFIDENCE_THRESHOLD :: real
  GEMINI_TIMEOUT_MS :: nat
  OPENAI_TIMEOUT_MS :: nat

text \<open>config.ts, lines 3-23.\<close>

definition CONFIG :: config where
  "CONFIG = \<lparr>RATE_LIMIT_DAILY = 7,
            COST_LIMIT_MONTHLY_INR = 100,
            GEMINI_COST_PER_IMAGE_INR = 3 / 100,
            OPENAI_COST_PER_IMAGE_INR = 9 / 100,
            LOW_CONFIDENCE_THRESHOLD = 6 / 10,
            GEMINI_TIMEOUT_MS = 30000,
            OPENAI_TIMEOUT_MS = 20000\<rparr>"

datatype AIModel = gemini | openai

text \<open>A calendar day is its day number; \<^verbatim>\<open>usage_date\<close> is compared as a date.\<close>

type_synonym date = nat

record AIUsageRecord =
  usage_user_id :: jsstring
  usage_date :: date
  calls :: int
  estimated_cost :: real

text \<open>The table \<^verbatim>\<open>ai_usage\<close> is the list of its rows. The store is taken to answer
  every query; the only error the source tells apart is \<^verbatim>\<open>PGRST116\<close>, with which
  \<^verbatim>\<open>.single()\<close> answers when the rows selected are not exactly one.\<close>

type_synonym ledger = "AIUsageRecord list"

definition select_rows :: "ledger \<Rightarrow> jsstring \<Rightarrow> date \<Rightarrow> AIUsageRecord list" where
  "select_rows db userId day =
     filter (\<lambda>r. usage_user_id r = userId \<and> usage_date r = day) db"

definition single :: "AIUsageRecord list \<Rightarrow> AIUsageRecord option" where
  "single rows = (case rows of [r] \<Rightarrow> Some r | _ \<Rightarrow> None)"

text \<open>database.ts, \<^verbatim>\<open>getDailyUsageCount\<close>, lines 237-258; \<open>today\<close> is the day the
  function reads from the clock.\<close>

definition getDailyUsageCount :: "ledger \<Rightarrow> jsstring \<Rightarrow> date \<Rightarrow> int" where
  "getDailyUsageCount db userId today =
     (case single (select_rows db userId today) of
        None \<Rightarrow> 0
      | Some data \<Rightarrow> calls data)"

text \<open>database.ts, \<^verbatim>\<open>getMonthlyEstimatedCost\<close>, lines 263-280; \<open>firstDayOfMonth\<close> is
  computed from the clock.\<close>

definition getMonthlyEstimatedCost :: "ledger \<Rightarrow> date \<Rightarrow> real" where
  "getMonthlyEstimatedCost db firstDayOfMonth =
     foldl (\<lambda>sum record. sum + estimated_cost record) 0
       (filter (\<lambda>r. firstDayOfMonth \<le> usage_date r) db)"

text \<open>database.ts, \<^verbatim>\<open>recordAIUsage\<close>, lines 285-329: the ledger after the call.\<close>

definition recordAIUsage :: "config \<Rightarrow> ledger \<Rightarrow> jsstring \<Rightarrow> AIModel \<Rightarrow> date \<Rightarrow> ledger" where
  "recordAIUsage cfg db userId model today =
     (let cost = (if model = gemini then GEMINI_COST_PER_IMAGE_INR cfg
                  else OPENAI_COST_PER_IMAGE_INR cfg)
      in case single (select_rows db userId today) of
           Some existing \<Rightarrow>
             map (\<lambda>r. if usage_user_id r = userId \<and> usage_date r = today
                       then r\<lparr>calls := calls existing + 1,
                              estimated_cost := estimated_cost existing + cost\<rparr>
                       else r) db
         | None \<Rightarrow>
             db @ [\<lparr>usage_user_id = userId, usage_date = today, calls = 1,
                    estimated_cost = cost\<rparr>])"


section \<open>The request handler (index.ts)\<close>

record AnalyzeMealResponse = MacroEstimate +
  source :: jsstring
  ai_model_used :: "AIModel option"

datatype unable_details =
    AI_model_failed_to_analyze_the_image
  | AI_analysis_failed_Please_check_the_image
  | Failed_to_analyze_meal_description
  | Image_does_not_appear_to_contain_food

text \<open>The \<^verbatim>\<open>error\<close> text of a \<^verbatim>\<open>jsonError\<close>; the spec's names are
  \<open>ValidationFailure\<close> for \<open>Validation\<close>, \<open>IdentityMismatch\<close> for
  \<open>User_id_does_not_match\<close>, \<open>RateLimitExceeded\<close> for
  \<open>Daily_rate_limit_exceeded\<close>, \<open>CostLimitExceeded\<close> for
  \<open>Monthly_cost_limit_reached\<close>, \<open>ImageUnreachable\<close> for the three validation
  errors of \<open>validateImageUrl\<close> and \<open>UnableToEstimate\<close> for \<open>Unable_to_estimate\<close>.\<close>

datatype error_text =
    Method_not_allowed
  | Missing_authorization_header
  | Unauthorized
  | Validation ValidationError
  | User_id_does_not_match
  | Daily_rate_limit_exceeded
  | Monthly_cost_limit_reached
  | Unable_to_estimate unable_details
  | Invalid_request
  | Internal_server_error

text \<open>A response: the CORS preflight answer, \<^verbatim>\<open>jsonError(error, status)\<close> or
  \<^verbatim>\<open>jsonResponse(data)\<close> with status 200.\<close>

datatype response =
    Preflight
  | JsonError error_text nat
  | JsonResponse AnalyzeMealResponse

datatype http_method = OPTIONS | POST | Other_method

text \<open>What \<^verbatim>\<open>supabaseClient.auth.getUser(token)\<close> answers.\<close>

datatype getUser_result = Auth_error | No_user | User jsstring

datatype provider_call =
    Call_analyzeWithGemini
  | Call_analyzeWithOpenAI
  | Call_analyzeTextWithGemini

text \<open>Everything one request reads from outside: the request itself, the identity
  verifier, the runtime's URL parser, the \<^verbatim>\<open>HEAD\<close> probe, the environment variables,
  what each provider would deliver, and the clock as read by \<^verbatim>\<open>getDailyUsageCount\<close>,
  \<^verbatim>\<open>getMonthlyEstimatedCost\<close> and \<^verbatim>\<open>recordAIUsage\<close>.\<close>

record env =
  req_method :: http_method
  req_Authorization :: "jsstring option"
  auth_getUser :: getUser_result
  req_json :: "json option"
  URL_protocol :: "jsstring \<Rightarrow> jsstring option"
  head_fetch :: head_response
  GEMINI_API_KEY :: "jsstring option"
  OPENAI_API_KEY :: "jsstring option"
  gemini_upstream :: upstream
  openai_upstream :: upstream
  gemini_text_upstream :: upstream
  today_of_count :: date
  firstDayOfMonth :: date
  today_of_record :: date

text \<open>index.ts, line 111\<close>

definition hasOpenAI :: "env \<Rightarrow> bool" where
  "hasOpenAI e = truthy_str (OPENAI_API_KEY e)"

text \<open>index.ts, lines 106-176 (\<^verbatim>\<open>// Analyze with AI\<close>): either the response returned
  from inside the branch, or \<^verbatim>\<open>macros\<close> and \<^verbatim>\<open>aiModel\<close>; with them, the adapters
  that were called, in order.\<close>

definition analyze ::
  "env \<Rightarrow> AnalyzeMealRequest \<Rightarrow> (response + MacroEstimate \<times> AIModel) \<times> provider_call list"
where
  "analyze e requestData =
     (if truthy_str (image_url requestData) then
        (case analyzeWithGemini (GEMINI_API_KEY e) (gemini_upstream e) of
           Inr macros \<Rightarrow>
             if confidence macros = Low \<and> hasOpenAI e then
               (case analyzeWithOpenAI (OPENAI_API_KEY e) (openai_upstream e) of
                  Inr openAIMacros \<Rightarrow>
                    if confidence openAIMacros \<noteq> Low
                    then (Inr (openAIMacros, openai),
                          [Call_analyzeWithGemini, Call_analyzeWithOpenAI])
                    else (Inr (macros, gemini),
                          [Call_analyzeWithGemini, Call_analyzeWithOpenAI])
                | Inl openAIError \<Rightarrow>
                    (Inr (macros, gemini), [Call_analyzeWithGemini, Call_analyzeWithOpenAI]))
             else (Inr (macros, gemini), [Call_analyzeWithGemini])
         | Inl geminiError \<Rightarrow>
             if hasOpenAI e then
               (case analyzeWithOpenAI (OPENAI_API_KEY e) (openai_upstream e) of
                  Inr macros \<Rightarrow>
                    (Inr (macros, openai), [Call_analyzeWithGemini, Call_analyzeWithOpenAI])
                | Inl openAIError \<Rightarrow>
                    (Inl (JsonError (Unable_to_estimate AI_model_failed_to_analyze_the_image) 500),
                     [Call_analyzeWithGemini, Call_analyzeWithOpenAI]))
             else (Inl (JsonError (Unable_to_estimate AI_analysis_failed_Please_check_the_image)
                          500),
                   [Call_analyzeWithGemini]))
      else
        (case description requestData of
           None \<Rightarrow> (Inl (JsonError Invalid_request 400), [])
         | Some d \<Rightarrow>
             if d = [] then (Inl (JsonError Invalid_request 400), [])
             else
               (case analyzeTextWithGemini (GEMINI_API_KEY e) d (gemini_text_upstream e) of
                  Inr macros \<Rightarrow> (Inr (macros, gemini), [Call_analyzeTextWithGemini])
                | Inl textAnalysisError \<Rightarrow>
                    (Inl (JsonError (Unable_to_estimate Failed_to_analyze_meal_description)
                            500),
                     [Call_analyzeTextWithGemini]))))"

text \<open>index.ts, line 179: the test that rejects an estimate as not food.\<close>

definition not_food :: "MacroEstimate \<Rightarrow> bool" where
  "not_food macros \<longleftrightarrow>
     calories macros = 0 \<or> (protein macros = 0 \<and> carbs macros = 0 \<and> fat macros = 0)"

text \<open>index.ts, lines 191-200: the body of the success response.\<close>

definition success_response :: "MacroEstimate \<Rightarrow> AIModel \<Rightarrow> AnalyzeMealResponse" where
  "success_response macros aiModel =
     \<lparr>calories = calories macros,
      protein = protein macros,
      carbs = carbs macros,
      fat = fat macros,
      confidence = confidence macros,
      meal_description = meal_description macros,
      source = js ''ai'',
      ai_model_used = Some aiModel\<rparr>"

text \<open>index.ts, lines 178-202: what the handler does with the estimate \<^verbatim>\<open>macros\<close> that
  the analysis accepted from \<^verbatim>\<open>aiModel\<close>, for the authenticated user \<open>uid\<close>:
  the not-food rejection, or else the usage record and the success response.\<close>

definition finalize ::
  "config \<Rightarrow> env \<Rightarrow> ledger \<Rightarrow> jsstring \<Rightarrow> MacroEstimate \<Rightarrow> AIModel \<Rightarrow> provider_call list
     \<Rightarrow> response \<times> ledger \<times> provider_call list" where
  "finalize cfg e db uid macros aiModel called =
     (if not_food macros
      then (JsonError (Unable_to_estimate Image_does_not_appear_to_contain_food) 400,
            db, called)
      else (JsonResponse (success_response macros aiModel),
            recordAIUsage cfg db uid aiModel (today_of_record e),
            called))"

text \<open>index.ts, lines 19-217: the handler. It returns the response, the ledger after the
  request and the adapters it called. An exception that reaches the outer \<^verbatim>\<open>catch\<close> is
  a \<open>ValidationError\<close> (status 400) or the \<^verbatim>\<open>SyntaxError\<close> of \<^verbatim>\<open>req.json()\<close>
  (status 500).\<close>

definition serve :: "config \<Rightarrow> env \<Rightarrow> ledger \<Rightarrow> response \<times> ledger \<times> provider_call list" where
  "serve cfg e db =
     (if req_method e = OPTIONS then (Preflight, db, [])
      else if req_method e \<noteq> POST then (JsonError Method_not_allowed 405, db, [])
      else if \<not> truthy_str (req_Authorization e)
        then (JsonError Missing_authorization_header 401, db, [])
      else case auth_getUser e of
        Auth_error \<Rightarrow> (JsonError Unauthorized 401, db, [])
      | No_user \<Rightarrow> (JsonError Unauthorized 401, db, [])
      | User user_id_of_user \<Rightarrow>
         (case req_json e of
            None \<Rightarrow> (JsonError Internal_server_error 500, db, [])
          | Some body \<Rightarrow>
             (case validateRequest (URL_protocol e) body of
                Inl err \<Rightarrow> (JsonError (Validation err) 400, db, [])
              | Inr requestData \<Rightarrow>
                  if user_id requestData \<noteq> user_id_of_user
                    then (JsonError User_id_does_not_match 403, db, [])
                  else if getDailyUsageCount db user_id_of_user (today_of_count e)
                          \<ge> RATE_LIMIT_DAILY cfg
                    then (JsonError Daily_rate_limit_exceeded 429, db, [])
                  else if getMonthlyEstimatedCost db (firstDayOfMonth e)
                          \<ge> COST_LIMIT_MONTHLY_INR cfg
                    then (JsonError Monthly_cost_limit_reached 429, db, [])
                  else
                    (case (if truthy_str (image_url requestData)
                           then validateImageUrl (head_fetch e) else Inr ()) of
                       Inl err \<Rightarrow> (JsonError (Validation err) 400, db, [])
                     | Inr _ \<Rightarrow>
                        (case analyze e requestData of
                           (Inl resp, called) \<Rightarrow> (resp, db, called)
                         | (Inr (macros, aiModel), called) \<Rightarrow>
                             finalize cfg e db user_id_of_user macros aiModel called)))))"


section \<open>Paths through the handler\<close>

text \<open>The request is a \<^verbatim>\<open>POST\<close> with a credential that resolves to the user \<open>uid\<close>,
  its body validates to \<open>r\<close>, and \<open>r\<close> names \<open>uid\<close>: the handler reaches the
  rate-limit check of line 87.\<close>

definition reaches_rate_check :: "env \<Rightarrow> jsstring \<Rightarrow> AnalyzeMealRequest \<Rightarrow> bool" where
  "reaches_rate_check e uid r \<longleftrightarrow>
     req_method e = POST \<and> truthy_str (req_Authorization e) \<and> auth_getUser e = User uid
     \<and> (case req_json e of
           None \<Rightarrow> False
         | Some body \<Rightarrow> validateRequest (URL_protocol e) body = Inr r)
     \<and> user_id r = uid"

text \<open>The request moreover passes the rate-limit check, the cost guard and, when it has an
  image, the probe of the image URL: the handler reaches the analysis of line 106.\<close>

definition reaches_analysis ::
  "config \<Rightarrow> env \<Rightarrow> ledger \<Rightarrow> jsstring \<Rightarrow> AnalyzeMealRequest \<Rightarrow> bool" where
  "reaches_analysis cfg e db uid r \<longleftrightarrow>
     reaches_rate_check e uid r
     \<and> getDailyUsageCount db uid (today_of_count e) < RATE_LIMIT_DAILY cfg
     \<and> getMonthlyEstimatedCost db (firstDayOfMonth e) < COST_LIMIT_MONTHLY_INR cfg
     \<and> (if truthy_str (image_url r) then validateImageUrl (head_fetch e) = Inr () else True)"

text \<open>\<open>serve_all\<close> handles requests one after the other, each on the ledger its
  predecessor left.\<close>

fun serve_all :: "config \<Rightarrow> env list \<Rightarrow> ledger \<Rightarrow> response list \<times> ledger" where
  "serve_all cfg [] db = ([], db)"
| "serve_all cfg (e # es) db =
     (case serve cfg e db of
        (resp, db', called) \<Rightarrow>
          (case serve_all cfg es db' of (resps, db'') \<Rightarrow> (resp # resps, db'')))"

section \<open>Example requests\<close>

definition example_user :: jsstring where
  "example_user = js ''123e4567-e89b-12d3-a456-426614174000''"

definition other_user :: jsstring where
  "other_user = js ''00000000-0000-4000-8000-000000000001''"

definition example_body :: json where
  "example_body =
     JObject [(js ''user_id'', JString example_user),
              (js ''image_url'', JString (js ''https://example.com/meal.jpg''))]"

definition example_request :: AnalyzeMealRequest where
  "example_request =
     \<lparr>user_id = example_user,
      image_url = Some (js ''https://example.com/meal.jpg''),
      description = None\<rparr>"

definition example_text :: jsstring where
  "example_text =
     js ''{\"calories\":450,\"protein\":18.5,\"carbs\":60,\"fat\":12,\"confidence\":\"high\"}''"

definition example_macros :: MacroEstimate where
  "example_macros =
     \<lparr>calories = 450, protein = 185 / 10, carbs = 60, fat = 12, confidence = High,
      meal_description = None\<rparr>"

text \<open>An image request of \<open>example_user\<close> on day 45, in a month that began on day 32; the
  image is reachable, only the Gemini key is configured and Gemini answers
  \<open>example_text\<close>.\<close>

definition example_env :: env where
  "example_env =
     \<lparr>req_method = POST,
      req_Authorization = Some (js ''Bearer t''),
      auth_getUser = User example_user,
      req_json = Some example_body,
      URL_protocol = (\<lambda>url. if startsWith url (js ''https://'') then Some (js ''https:'')
                            else None),
      head_fetch = Head_response 200 (Some (js ''image/jpeg'')),
      GEMINI_API_KEY = Some (js ''k''),
      OPENAI_API_KEY = None,
      gemini_upstream = Upstream_text example_text,
      openai_upstream = Upstream_failed,
      gemini_text_upstream = Upstream_failed,
      today_of_count = 45,
      firstDayOfMonth = 32,
      today_of_record = 45\<rparr>"

definition example_response :: AnalyzeMealResponse where
  "example_response =
     \<lparr>calories = 450, protein = 185 / 10, carbs = 60, fat = 12, confidence = High,
      meal_description = None, source = js ''ai'', ai_model_used = Some gemini\<rparr>"

text \<open>The configuration of the source with a daily limit of 5.\<close>

definition five_a_day :: config where
  "five_a_day = CONFIG\<lparr>RATE_LIMIT_DAILY := 5\<rparr>"

text \<open>The ledger row of \<open>example_user\<close> for day 45.\<close>

definition example_row :: "int \<Rightarrow> real \<Rightarrow> AIUsageRecord" where
  "example_row n c =
     \<lparr>usage_user_id = example_user, usage_date = 45, calls = n, estimated_cost = c\<rparr>"


definition other_row :: AIUsageRecord where
  "other_row =
     \<lparr>usage_user_id = other_user, usage_date = 40, calls = 2666, estimated_cost = 7999 / 100\<rparr>"

text \<open>Texts a provider may deliver, the estimate with no description, and the example
  request with other providers: what Gemini delivers, the OpenAI key, what OpenAI
  delivers.\<close>

definition zero_calorie_text :: jsstring where
  "zero_calorie_text =
     js ''{\"calories\":0,\"protein\":5,\"carbs\":1,\"fat\":1,\"confidence\":\"high\"}''"

definition zero_macros_text :: jsstring where
  "zero_macros_text =
     js ''{\"calories\":120,\"protein\":0,\"carbs\":0,\"fat\":0,\"confidence\":\"medium\"}''"

definition all_zero_high_text :: jsstring where
  "all_zero_high_text =
     js ''{\"calories\":0,\"protein\":0,\"carbs\":0,\"fat\":0,\"confidence\":\"high\"}''"

definition all_zero_low_text :: jsstring where
  "all_zero_low_text =
     js ''{\"calories\":0,\"protein\":0,\"carbs\":0,\"fat\":0,\"confidence\":\"low\"}''"

definition low_text :: jsstring where
  "low_text =
     js ''{\"calories\":300,\"protein\":10,\"carbs\":40,\"fat\":9,\"confidence\":\"low\"}''"

definition medium_text :: jsstring where
  "medium_text =
     js ''{\"calories\":320,\"protein\":12,\"carbs\":41,\"fat\":10,\"confidence\":\"medium\"}''"

definition estimate :: "real \<Rightarrow> real \<Rightarrow> real \<Rightarrow> real \<Rightarrow> confidence \<Rightarrow> MacroEstimate" where
  "estimate c p cb f cf =
     \<lparr>calories = c, protein = p, carbs = cb, fat = f, confidence = cf,
      meal_description = None\<rparr>"

definition with_providers :: "upstream \<Rightarrow> jsstring option \<Rightarrow> upstream \<Rightarrow> env" where
  "with_providers g k oa =
     example_env\<lparr>gemini_upstream := g, OPENAI_API_KEY := k, openai_upstream := oa\<rparr>"

text \<open>A text-only request of \<open>example_user\<close>; the text adapter delivers
  \<open>zero_calorie_text\<close>.\<close>

definition text_body :: json where
  "text_body =
     JObject [(js ''user_id'', JString example_user),
              (js ''description'', JString (js ''2 roti with sabzi''))]"

definition text_request :: AnalyzeMealRequest where
  "text_request =
     \<lparr>user_id = example_user, image_url = None, description = Some (js ''2 roti with sabzi'')\<rparr>"

definition text_env :: env where
  "text_env =
     example_env\<lparr>req_json := Some text_body, head_fetch := Fetch_threw,
                   gemini_upstream := Upstream_failed,
                   gemini_text_upstream := Upstream_text zero_calorie_text\<rparr>"

section \<open>The three normalisers, side by side\<close>





text \<open>Provider texts for the rounding boundary, a payload with negative numbers, a fenced
  payload with a comma before the closing brace, and a payload cut off after a comma.\<close>

definition half_below_text :: jsstring where
  "half_below_text =
     js ''{\"calories\":450.4,\"protein\":18.54,\"carbs\":60,\"fat\":12,\"confidence\":\"high\"}''"

definition half_text :: jsstring where
  "half_text =
     js ''{\"calories\":450.5,\"protein\":18.55,\"carbs\":60,\"fat\":12,\"confidence\":\"high\"}''"

definition negative_text :: jsstring where
  "negative_text =
     js ''{\"calories\":-5,\"protein\":-1.5,\"carbs\":2,\"fat\":3,\"confidence\":\"low\"}''"

definition fenced_trailing_comma :: jsstring where
  "fenced_trailing_comma = js ''```json\<newline>{\"calories\": 450,}\<newline>```''"

definition truncated_text :: jsstring where
  "truncated_text = js ''```json\<newline>{\"calories\": 450,''"

section \<open>Evaluation of the examples\<close>

lemmas JSON_parse_eval =
  JSON_parse_def js_def step_def step_plain_def start_value_def json_ws_def is_digit_def
  hexval_def num_step_def num_final_def numval_def

lemmas normaliser_eval =
  gemini_parseAIResponse_def openai_parseAIResponse_def parseTextAnalysisResponse_def
  gemini_cleaned_def text_cleaned_def strip_prefix_re_def strip_fence_end_def
  match_braces_def extract_object_def confidence_of_def trim_def trim_end_def
  is_space_def startsWith_def
  startsWith_ci_def lower_def Math_round_def

lemma validateRequest_example:
  "validateRequest (URL_protocol example_env) example_body = Inr example_request"
  by (simp add: validateRequest_def example_env_def example_body_def example_request_def
      example_user_def uuidRegex_test_def is_hex_def is_digit_def isValidUrl_def
      startsWith_def js_def)

lemma gemini_parse_example: "gemini_parseAIResponse example_text = Inr example_macros"
  by (simp add: example_text_def example_macros_def normaliser_eval JSON_parse_eval)

lemma example_env_fields:
  "req_method example_env = POST"
  "req_Authorization example_env = Some (js ''Bearer t'')"
  "auth_getUser example_env = User example_user"
  "req_json example_env = Some example_body"
  "head_fetch example_env = Head_response 200 (Some (js ''image/jpeg''))"
  "GEMINI_API_KEY example_env = Some (js ''k'')"
  "OPENAI_API_KEY example_env = None"
  "gemini_upstream example_env = Upstream_text example_text"
  "openai_upstream example_env = Upstream_failed"
  "gemini_text_upstream example_env = Upstream_failed"
  "today_of_count example_env = 45"
  "firstDayOfMonth example_env = 32"
  "today_of_record example_env = 45"
  by (simp_all add: example_env_def)

lemma example_request_fields:
  "user_id example_request = example_user"
  "image_url example_request = Some (js ''https://example.com/meal.jpg'')"
  "description example_request = None"
  by (simp_all add: example_request_def)

lemma truthy_str_js [simp]: "truthy_str (Some (js (c # cs)))"
  by (simp add: truthy_str_def js_def)

lemma reaches_rate_check_example: "reaches_rate_check example_env example_user example_request"
  by (simp add: reaches_rate_check_def example_env_fields example_request_fields
      validateRequest_example)


lemma validateImageUrl_example:
  "validateImageUrl (Head_response 200 (Some (js ''image/jpeg''))) = Inr ()"
  by (simp add: validateImageUrl_def ok_def startsWith_def js_def)

lemma example_text_nonempty: "example_text \<noteq> []"
  by (simp add: example_text_def js_def)

lemma analyze_example:
  "analyze example_env example_request = (Inr (example_macros, gemini), [Call_analyzeWithGemini])"
  by (simp add: analyze_def example_env_fields example_request_fields analyzeWithGemini_def
      gemini_parse_example example_text_nonempty hasOpenAI_def)
     (simp add: truthy_str_def)

lemma not_food_example: "\<not> not_food example_macros"
  by (simp add: not_food_def example_macros_def)

lemma success_response_example: "success_response example_macros gemini = example_response"
  by (simp add: success_response_def example_macros_def example_response_def)

section \<open>The ledger operations\<close>

lemma foldl_add_sum_list:
  "foldl (\<lambda>sum record. sum + f record) (a::real) rows = a + sum_list (map f rows)"
  by (induction rows arbitrary: a) (simp_all add: add.assoc)

lemma getMonthlyEstimatedCost_sum_list:
  "getMonthlyEstimatedCost db firstDay =
     (\<Sum>r\<leftarrow>db. if firstDay \<le> usage_date r then estimated_cost r else 0)"
  by (induction db) (simp_all add: getMonthlyEstimatedCost_def foldl_add_sum_list)

lemma single_simps [simp]:
  "single [] = None" "single [r] = Some r" "single (r # r' # rs) = None"
  by (simp_all add: single_def)










section \<open>The handler, path by path\<close>

lemma serve_rate_limited:
  assumes "reaches_rate_check e uid r"
    and "RATE_LIMIT_DAILY cfg \<le> getDailyUsageCount db uid (today_of_count e)"
  shows "serve cfg e db = (JsonError Daily_rate_limit_exceeded 429, db, [])"
  using assms
  by (auto simp: reaches_rate_check_def serve_def split: option.splits)


lemma serve_reaches_analysis:
  assumes "reaches_analysis cfg e db uid r"
  shows "serve cfg e db =
           (case analyze e r of
              (Inl resp, called) \<Rightarrow> (resp, db, called)
            | (Inr (macros, aiModel), called) \<Rightarrow> finalize cfg e db uid macros aiModel called)"
  using assms
  by (auto simp: reaches_analysis_def reaches_rate_check_def serve_def
      split: option.splits if_splits)

lemma serve_accepted:
  assumes "reaches_analysis cfg e db uid r"
    and "analyze e r = (Inr (macros, aiModel), called)"
  shows "serve cfg e db = finalize cfg e db uid macros aiModel called"
  using assms by (simp add: serve_reaches_analysis)



lemma serve_example:
  assumes "getDailyUsageCount db example_user 45 < RATE_LIMIT_DAILY cfg"
    and "getMonthlyEstimatedCost db 32 < COST_LIMIT_MONTHLY_INR cfg"
  shows "serve cfg example_env db =
           (JsonResponse example_response,
            recordAIUsage cfg db example_user gemini 45,
            [Call_analyzeWithGemini])"
proof -
  have "reaches_analysis cfg example_env db example_user example_request"
    using assms
    by (simp add: reaches_analysis_def reaches_rate_check_example example_env_fields
        example_request_fields validateImageUrl_example)
  from serve_reaches_analysis [OF this] show ?thesis
    by (simp add: analyze_example finalize_def not_food_example success_response_example
        example_env_fields)
qed


lemma getDailyUsageCount_example_row:
  "getDailyUsageCount (example_row n c # rows) example_user 45 =
     (if select_rows rows example_user 45 = [] then n else 0)"
  by (cases "select_rows rows example_user 45")
     (simp_all add: getDailyUsageCount_def select_rows_def example_row_def)

lemma recordAIUsage_example_row:
  "recordAIUsage cfg [example_row n c] example_user gemini 45 =
     [example_row (n + 1) (c + GEMINI_COST_PER_IMAGE_INR cfg)]"
  by (simp add: recordAIUsage_def select_rows_def example_row_def)

lemma recordAIUsage_example_first:
  "recordAIUsage cfg [] example_user gemini 45 = [example_row 1 (GEMINI_COST_PER_IMAGE_INR cfg)]"
  by (simp add: recordAIUsage_def select_rows_def example_row_def)

lemma getMonthlyEstimatedCost_example_row:
  "getMonthlyEstimatedCost (example_row n c # rows) 32 = c + getMonthlyEstimatedCost rows 32"
  by (simp add: getMonthlyEstimatedCost_sum_list example_row_def)

lemma getMonthlyEstimatedCost_Nil: "getMonthlyEstimatedCost [] firstDay = 0"
  by (simp add: getMonthlyEstimatedCost_def)

lemma five_a_day_fields:
  "RATE_LIMIT_DAILY five_a_day = 5" "COST_LIMIT_MONTHLY_INR five_a_day = 100"
  "GEMINI_COST_PER_IMAGE_INR five_a_day = 3 / 100"
  by (simp_all add: five_a_day_def CONFIG_def)

lemma six_requests:
  "serve_all five_a_day
     [example_env, example_env, example_env, example_env, example_env, example_env] []
   = ([JsonResponse example_response, JsonResponse example_response,
       JsonResponse example_response, JsonResponse example_response,
       JsonResponse example_response, JsonError Daily_rate_limit_exceeded 429],
      [example_row 5 (15 / 100)])"
proof -
  have s: "serve five_a_day example_env [example_row n c]
            = (JsonResponse example_response, [example_row (n + 1) (c + 3 / 100)],
               [Call_analyzeWithGemini])"
    if "n < 5" "c < 100" for n c
    using that
    by (subst serve_example)
       (simp_all add: getDailyUsageCount_example_row select_rows_def five_a_day_fields
          recordAIUsage_example_row getMonthlyEstimatedCost_example_row
          getMonthlyEstimatedCost_Nil)
  have s0: "serve five_a_day example_env []
            = (JsonResponse example_response, [example_row 1 (3 / 100)],
               [Call_analyzeWithGemini])"
    by (subst serve_example)
       (simp_all add: getDailyUsageCount_def select_rows_def five_a_day_fields
          recordAIUsage_example_first getMonthlyEstimatedCost_Nil)
  have s6: "serve five_a_day example_env [example_row 5 c]
            = (JsonError Daily_rate_limit_exceeded 429, [example_row 5 c], [])" for c
    by (rule serve_rate_limited [OF reaches_rate_check_example])
       (simp add: example_env_fields getDailyUsageCount_example_row select_rows_def
          five_a_day_fields)
  show ?thesis
    by (simp add: s0 s s6)
qed


lemma other_user_neq: "other_user \<noteq> example_user"
  by (simp add: other_user_def example_user_def js_def)

lemma select_other_row [simp]: "select_rows (other_row # rows) example_user d = select_rows rows example_user d"
  using other_user_neq by (simp add: select_rows_def other_row_def)

lemma select_example_row [simp]:
  "select_rows (example_row n c # rows) example_user 45 = example_row n c # select_rows rows example_user 45"
  by (simp add: select_rows_def example_row_def)

lemma select_rows_Nil [simp]: "select_rows [] uid d = []"
  by (simp add: select_rows_def)








lemma parse_examples:
  "gemini_parseAIResponse zero_calorie_text = Inr (estimate 0 5 1 1 High)"
  "gemini_parseAIResponse zero_macros_text = Inr (estimate 120 0 0 0 Medium)"
  "gemini_parseAIResponse all_zero_high_text = Inr (estimate 0 0 0 0 High)"
  "gemini_parseAIResponse all_zero_low_text = Inr (estimate 0 0 0 0 Low)"
  "gemini_parseAIResponse low_text = Inr (estimate 300 10 40 9 Low)"
  "openai_parseAIResponse medium_text = Inr (estimate 320 12 41 10 Medium)"
  "openai_parseAIResponse low_text = Inr (estimate 300 10 40 9 Low)"
  by (simp_all add: zero_calorie_text_def zero_macros_text_def all_zero_high_text_def
      all_zero_low_text_def low_text_def medium_text_def estimate_def
      normaliser_eval JSON_parse_eval)


lemma text_nonempty:
  "zero_calorie_text \<noteq> []" "zero_macros_text \<noteq> []" "all_zero_high_text \<noteq> []"
  "all_zero_low_text \<noteq> []" "low_text \<noteq> []" "medium_text \<noteq> []"
  by (simp_all add: zero_calorie_text_def zero_macros_text_def all_zero_high_text_def
      all_zero_low_text_def low_text_def medium_text_def js_def)

lemma with_providers_fields:
  "GEMINI_API_KEY (with_providers g k oa) = Some (js ''k'')"
  "gemini_upstream (with_providers g k oa) = g"
  "OPENAI_API_KEY (with_providers g k oa) = k"
  "openai_upstream (with_providers g k oa) = oa"
  "today_of_record (with_providers g k oa) = 45"
  by (simp_all add: with_providers_def example_env_fields)

lemma reaches_analysis_with_providers:
  "reaches_analysis CONFIG (with_providers g k oa) [] example_user example_request"
proof -
  have "validateRequest (URL_protocol (with_providers g k oa)) example_body = Inr example_request"
    using validateRequest_example by (simp add: with_providers_def)
  then show ?thesis
    by (simp add: reaches_analysis_def reaches_rate_check_def with_providers_def
        example_env_fields example_request_fields validateImageUrl_example
        getDailyUsageCount_def getMonthlyEstimatedCost_Nil CONFIG_def)
qed

lemma truthy_image_example: "truthy_str (image_url example_request)"
  by (simp add: example_request_fields)

lemma estimate_fields:
  "calories (estimate c p cb f cf) = c" "protein (estimate c p cb f cf) = p"
  "carbs (estimate c p cb f cf) = cb" "fat (estimate c p cb f cf) = f"
  "confidence (estimate c p cb f cf) = cf" "meal_description (estimate c p cb f cf) = None"
  by (simp_all add: estimate_def)

lemma analyzeWithGemini_text:
  "text \<noteq> [] \<Longrightarrow>
     analyzeWithGemini (Some (js ''k'')) (Upstream_text text) = gemini_parseAIResponse text"
  by (simp add: analyzeWithGemini_def)

lemma analyzeWithOpenAI_text:
  "text \<noteq> [] \<Longrightarrow>
     analyzeWithOpenAI (Some (js ''k'')) (Upstream_text text) = openai_parseAIResponse text"
  by (simp add: analyzeWithOpenAI_def)

lemma analyze_confident:
  assumes "truthy_str (image_url r)"
    and "analyzeWithGemini (GEMINI_API_KEY e) (gemini_upstream e) = Inr macros"
    and "confidence macros \<noteq> Low"
  shows "analyze e r = (Inr (macros, gemini), [Call_analyzeWithGemini])"
  using assms by (simp add: analyze_def)

lemma analyze_low:
  assumes "truthy_str (image_url r)"
    and "analyzeWithGemini (GEMINI_API_KEY e) (gemini_upstream e) = Inr macros"
    and "confidence macros = Low"
  shows "analyze e r =
           (if hasOpenAI e then
              (case analyzeWithOpenAI (OPENAI_API_KEY e) (openai_upstream e) of
                 Inr openAIMacros \<Rightarrow>
                   if confidence openAIMacros \<noteq> Low
                   then (Inr (openAIMacros, openai),
                         [Call_analyzeWithGemini, Call_analyzeWithOpenAI])
                   else (Inr (macros, gemini), [Call_analyzeWithGemini, Call_analyzeWithOpenAI])
               | Inl err \<Rightarrow>
                   (Inr (macros, gemini), [Call_analyzeWithGemini, Call_analyzeWithOpenAI]))
            else (Inr (macros, gemini), [Call_analyzeWithGemini]))"
  using assms by (simp add: analyze_def split: sum.splits)

section \<open>The normalisers\<close>




lemma Math_round_nonneg: "0 \<le> x \<Longrightarrow> 0 \<le> Math_round x"
  by (simp add: Math_round_def)

lemma candidate_examples:
  "gemini_cleaned half_below_text = half_below_text" "trim half_below_text = half_below_text"
  "text_cleaned half_below_text = half_below_text"
  "gemini_cleaned half_text = half_text" "trim half_text = half_text"
  "text_cleaned half_text = half_text"
  "gemini_cleaned negative_text = negative_text" "trim negative_text = negative_text"
  "text_cleaned negative_text = negative_text"
  "gemini_cleaned fenced_trailing_comma = js ''{\"calories\": 450,}''"
  "text_cleaned fenced_trailing_comma = js ''{\"calories\": 450,}''"
  "text_cleaned truncated_text = js ''{\"calories\": 450,''"
  by (simp_all add: half_below_text_def half_text_def negative_text_def
      fenced_trailing_comma_def truncated_text_def normaliser_eval js_def)

lemma JSON_parse_examples:
  "JSON_parse half_below_text
     = Some (JObject [(js ''calories'', JNumber (4504 / 10)), (js ''protein'', JNumber (1854 / 100)),
                      (js ''carbs'', JNumber 60), (js ''fat'', JNumber 12),
                      (js ''confidence'', JString (js ''high''))])"
  "JSON_parse half_text
     = Some (JObject [(js ''calories'', JNumber (4505 / 10)), (js ''protein'', JNumber (1855 / 100)),
                      (js ''carbs'', JNumber 60), (js ''fat'', JNumber 12),
                      (js ''confidence'', JString (js ''high''))])"
  "JSON_parse negative_text
     = Some (JObject [(js ''calories'', JNumber (- 5)), (js ''protein'', JNumber (- (15 / 10))),
                      (js ''carbs'', JNumber 2), (js ''fat'', JNumber 3),
                      (js ''confidence'', JString (js ''low''))])"
  "JSON_parse (js ''{\"calories\": 450,}'') = None"
  "JSON_parse (js ''{\"calories\": 450,'') = None"
  by (simp_all add: half_below_text_def half_text_def negative_text_def JSON_parse_eval)







lemma endsWith_examples:
  "endsWith (js ''{\"calories\": 450,}'') (js ''}'')"
  "\<not> endsWith (js ''{\"calories\": 450,}'') (js '','')"
  "endsWith (js ''{\"calories\": 450,'') (js '','')"
  by (simp_all add: js_def)

lemma validateRequest_text:
  "validateRequest (URL_protocol text_env) text_body = Inr text_request"
  by (simp add: validateRequest_def text_body_def text_request_def example_user_def
      uuidRegex_test_def is_hex_def is_digit_def trim_def trim_end_def is_space_def js_def)

lemma reaches_analysis_text: "reaches_analysis CONFIG text_env [] example_user text_request"
proof -
  have "truthy_str (req_Authorization text_env)"
    by (simp add: text_env_def example_env_fields)
  moreover have "\<not> truthy_str (image_url text_request)"
    by (simp add: text_request_def truthy_str_def)
  ultimately show ?thesis
    using validateRequest_text
    by (simp add: reaches_analysis_def reaches_rate_check_def getDailyUsageCount_def
        getMonthlyEstimatedCost_Nil CONFIG_def)
       (simp add: text_env_def example_env_fields text_request_def)
qed

lemma parse_text_example:
  "parseTextAnalysisResponse zero_calorie_text = Inr (estimate 0 5 1 1 High)"
  by (simp add: zero_calorie_text_def estimate_def normaliser_eval JSON_parse_eval)

lemma analyze_text:
  "analyze text_env text_request
     = (Inr (estimate 0 5 1 1 High, gemini), [Call_analyzeTextWithGemini])"
proof -
  have "length (trim (js ''2 roti with sabzi'')) = 17"
    by (simp add: trim_def trim_end_def is_space_def js_def)
  then have "analyzeTextWithGemini (Some (js ''k'')) (js ''2 roti with sabzi'')
               (Upstream_text zero_calorie_text) = Inr (estimate 0 5 1 1 High)"
    by (simp add: analyzeTextWithGemini_def text_nonempty parse_text_example)
       (simp add: js_def)
  then show ?thesis
    by (simp add: analyze_def text_env_def example_env_fields text_request_def)
       (simp add: truthy_str_def js_def)
qed

section \<open>The claims\<close>

text \<open>
  C4. Daily quota boundary. A request that reaches the rate-limit check is rejected
  with \<open>Daily_rate_limit_exceeded\<close>, status 429, exactly when the user's call count
  for today is at least \<open>RATE_LIMIT_DAILY\<close>; the rejection leaves the ledger as it
  was and calls no adapter, and a count below the limit is not rejected by this check.
  With a daily limit of 5 and an empty ledger, six successive requests of one user on
  one day get five estimates and then the rejection.
\<close>

theorem daily_quota_boundary:
  assumes "reaches_rate_check e uid r"
  shows "(RATE_LIMIT_DAILY cfg \<le> getDailyUsageCount db uid (today_of_count e) \<longrightarrow>
            serve cfg e db = (JsonError Daily_rate_limit_exceeded 429, db, []))
       \<and> (getDailyUsageCount db uid (today_of_count e) < RATE_LIMIT_DAILY cfg \<longrightarrow>
            fst (serve cfg e db) \<noteq> JsonError Daily_rate_limit_exceeded 429)
       \<and> serve_all five_a_day
            [example_env, example_env, example_env, example_env, example_env, example_env] []
          = ([JsonResponse example_response, JsonResponse example_response,
              JsonResponse example_response, JsonResponse example_response,
              JsonResponse example_response, JsonError Daily_rate_limit_exceeded 429],
             [example_row 5 (15 / 100)])"
proof (intro conjI impI)
  assume "RATE_LIMIT_DAILY cfg \<le> getDailyUsageCount db uid (today_of_count e)"
  with assms show "serve cfg e db = (JsonError Daily_rate_limit_exceeded 429, db, [])"
    by (rule serve_rate_limited)
next
  assume "getDailyUsageCount db uid (today_of_count e) < RATE_LIMIT_DAILY cfg"
  with assms show "fst (serve cfg e db) \<noteq> JsonError Daily_rate_limit_exceeded 429"
    by (auto simp: reaches_rate_check_def serve_def analyze_def finalize_def
        split: option.splits sum.splits if_splits prod.splits)
next
  show "serve_all five_a_day
          [example_env, example_env, example_env, example_env, example_env, example_env] []
        = ([JsonResponse example_response, JsonResponse example_response,
            JsonResponse example_response, JsonResponse example_response,
            JsonResponse example_response, JsonError Daily_rate_limit_exceeded 429],
           [example_row 5 (15 / 100)])"
    by (rule six_requests)
qed

theorem daily_quota_boundary_witness:
  "reaches_rate_check example_env example_user example_request
   \<and> getDailyUsageCount [example_row 5 (15 / 100)] example_user 45 = 5
   \<and> serve five_a_day example_env [example_row 5 (15 / 100)]
       = (JsonError Daily_rate_limit_exceeded 429, [example_row 5 (15 / 100)], [])
   \<and> getDailyUsageCount [example_row 4 (12 / 100)] example_user 45 = 4
   \<and> fst (serve five_a_day example_env [example_row 4 (12 / 100)])
       \<noteq> JsonError Daily_rate_limit_exceeded 429"
proof -
  have five: "getDailyUsageCount [example_row 5 (15 / 100)] example_user 45 = 5"
    and four: "getDailyUsageCount [example_row 4 (12 / 100)] example_user 45 = 4"
    by (simp_all add: getDailyUsageCount_example_row select_rows_def)
  from daily_quota_boundary [OF reaches_rate_check_example,
      where cfg = five_a_day and db = "[example_row 5 (15 / 100)]"]
    daily_quota_boundary [OF reaches_rate_check_example,
      where cfg = five_a_day and db = "[example_row 4 (12 / 100)]"]
    reaches_rate_check_example five four
  show ?thesis
    by (simp add: example_env_fields five_a_day_fields)
qed

text \<open>
  C10. A missing content-type passes the image probe. When the \<^verbatim>\<open>HEAD\<close> request
  answers with a 2xx status and no \<^verbatim>\<open>content-type\<close> header, \<open>validateImageUrl\<close>
  accepts the URL; it raises \<open>URL_does_not_point_to_an_image\<close> only for a 2xx answer
  whose \<^verbatim>\<open>content-type\<close> header is present and does not start with \<^verbatim>\<open>image/\<close>.
\<close>

theorem validateImageUrl_content_type:
  "(ok status \<longrightarrow> validateImageUrl (Head_response status None) = Inr ())
   \<and> (validateImageUrl response = Inl URL_does_not_point_to_an_image \<longrightarrow>
        (case response of
           Fetch_threw \<Rightarrow> False
         | Head_response st None \<Rightarrow> False
         | Head_response st (Some ct) \<Rightarrow> ok st \<and> \<not> startsWith ct (js ''image/'')))"
  by (auto simp: validateImageUrl_def split: head_response.splits option.splits if_splits)

theorem validateImageUrl_content_type_witness:
  "ok 200 \<and> validateImageUrl (Head_response 200 None) = Inr ()
   \<and> validateImageUrl (Head_response 200 (Some (js ''text/html'')))
       = Inl URL_does_not_point_to_an_image
   \<and> \<not> startsWith (js ''text/html'') (js ''image/'')"
proof -
  have a: "ok 200" by (simp add: ok_def)
  have b: "validateImageUrl (Head_response 200 (Some (js ''text/html'')))
             = Inl URL_does_not_point_to_an_image"
    by (simp add: validateImageUrl_def ok_def startsWith_def js_def)
  from validateImageUrl_content_type [of 200 "Head_response 200 (Some (js ''text/html''))"] a b
  show ?thesis by simp
qed





text \<open>
  C1. The not-food rule, as the code has it. For every estimate the analysis accepted,
  the handler rejects it with \<open>Unable_to_estimate\<close>
  (\<open>Image_does_not_appear_to_contain_food\<close>, status 400) exactly when calories = 0 or
  protein = carbs = fat = 0; otherwise it records the usage and returns the estimate
  with the provider that produced it.
\<close>

theorem not_food_rule:
  assumes "reaches_analysis cfg e db uid r"
    and "analyze e r = (Inr (macros, model), called)"
  shows "serve cfg e db =
           (if calories macros = 0 \<or> (protein macros = 0 \<and> carbs macros = 0 \<and> fat macros = 0)
            then (JsonError (Unable_to_estimate Image_does_not_appear_to_contain_food) 400,
                  db, called)
            else (JsonResponse (success_response macros model),
                  recordAIUsage cfg db uid model (today_of_record e), called))"
  using serve_accepted [OF assms] by (simp add: finalize_def not_food_def)

text \<open>The rule is a disjunction, not the conjunction "calories = 0 and all three macros
  = 0": an estimate with calories 0, protein 5, carbs 1, fat 1 is rejected, and so is one
  with calories 120 and all three macros 0.\<close>

theorem not_food_rule_counterexample:
  "analyze (with_providers (Upstream_text zero_calorie_text) None Upstream_failed) example_request
     = (Inr (estimate 0 5 1 1 High, gemini), [Call_analyzeWithGemini])
   \<and> serve CONFIG (with_providers (Upstream_text zero_calorie_text) None Upstream_failed) []
     = (JsonError (Unable_to_estimate Image_does_not_appear_to_contain_food) 400, [],
        [Call_analyzeWithGemini])
   \<and> analyze (with_providers (Upstream_text zero_macros_text) None Upstream_failed) example_request
     = (Inr (estimate 120 0 0 0 Medium, gemini), [Call_analyzeWithGemini])
   \<and> serve CONFIG (with_providers (Upstream_text zero_macros_text) None Upstream_failed) []
     = (JsonError (Unable_to_estimate Image_does_not_appear_to_contain_food) 400, [],
        [Call_analyzeWithGemini])"
proof -
  have a1: "analyze (with_providers (Upstream_text zero_calorie_text) None Upstream_failed)
              example_request
            = (Inr (estimate 0 5 1 1 High, gemini), [Call_analyzeWithGemini])"
    by (rule analyze_confident)
       (simp_all add: example_request_fields with_providers_fields analyzeWithGemini_text
          text_nonempty parse_examples estimate_fields)
  have a2: "analyze (with_providers (Upstream_text zero_macros_text) None Upstream_failed)
              example_request
            = (Inr (estimate 120 0 0 0 Medium, gemini), [Call_analyzeWithGemini])"
    by (rule analyze_confident)
       (simp_all add: example_request_fields with_providers_fields analyzeWithGemini_text
          text_nonempty parse_examples estimate_fields)
  show ?thesis
    using serve_accepted [OF reaches_analysis_with_providers a1]
      serve_accepted [OF reaches_analysis_with_providers a2] a1 a2
    by (simp add: finalize_def not_food_def estimate_fields)
qed

theorem not_food_rule_witness:
  "reaches_analysis CONFIG (with_providers (Upstream_text zero_calorie_text) None Upstream_failed)
     [] example_user example_request
   \<and> analyze (with_providers (Upstream_text zero_calorie_text) None Upstream_failed)
       example_request
     = (Inr (estimate 0 5 1 1 High, gemini), [Call_analyzeWithGemini])
   \<and> serve CONFIG (with_providers (Upstream_text zero_calorie_text) None Upstream_failed) []
     = (JsonError (Unable_to_estimate Image_does_not_appear_to_contain_food) 400, [],
        [Call_analyzeWithGemini])
   \<and> reaches_analysis CONFIG (with_providers (Upstream_text low_text) None Upstream_failed)
       [] example_user example_request
   \<and> analyze (with_providers (Upstream_text low_text) None Upstream_failed) example_request
     = (Inr (estimate 300 10 40 9 Low, gemini), [Call_analyzeWithGemini])
   \<and> serve CONFIG (with_providers (Upstream_text low_text) None Upstream_failed) []
     = (JsonResponse (success_response (estimate 300 10 40 9 Low) gemini),
        recordAIUsage CONFIG [] example_user gemini 45, [Call_analyzeWithGemini])
   \<and> reaches_analysis CONFIG text_env [] example_user text_request
   \<and> analyze text_env text_request
     = (Inr (estimate 0 5 1 1 High, gemini), [Call_analyzeTextWithGemini])
   \<and> serve CONFIG text_env []
     = (JsonError (Unable_to_estimate Image_does_not_appear_to_contain_food) 400, [],
        [Call_analyzeTextWithGemini])"
proof -
  have g: "analyzeWithGemini (GEMINI_API_KEY (with_providers (Upstream_text low_text) None
              Upstream_failed)) (gemini_upstream (with_providers (Upstream_text low_text) None
              Upstream_failed)) = Inr (estimate 300 10 40 9 Low)"
    by (simp add: with_providers_fields analyzeWithGemini_text text_nonempty parse_examples)
  have a1: "analyze (with_providers (Upstream_text zero_calorie_text) None Upstream_failed)
              example_request
            = (Inr (estimate 0 5 1 1 High, gemini), [Call_analyzeWithGemini])"
    by (rule analyze_confident)
       (simp_all add: example_request_fields with_providers_fields analyzeWithGemini_text
          text_nonempty parse_examples estimate_fields)
  have a2: "analyze (with_providers (Upstream_text low_text) None Upstream_failed)
              example_request
            = (Inr (estimate 300 10 40 9 Low, gemini), [Call_analyzeWithGemini])"
    using analyze_low [OF truthy_image_example g]
    by (simp add: estimate_fields hasOpenAI_def with_providers_fields truthy_str_def)
  from not_food_rule [OF reaches_analysis_with_providers a1]
    not_food_rule [OF reaches_analysis_with_providers a2]
    not_food_rule [OF reaches_analysis_text analyze_text]
    reaches_analysis_with_providers reaches_analysis_text a1 a2 analyze_text
  show ?thesis
    by (simp add: estimate_fields with_providers_fields)
qed

text \<open>
  C5. Confidence-gated fallback. For an image request that reaches the analysis and whose
  Gemini adapter succeeds with a confidence other than low, the handler calls the Gemini
  adapter and nothing else; the Gemini estimate is the one finalised: it is returned,
  marked \<open>gemini\<close>, unless the not-food test rejects it.
\<close>

theorem confident_primary_no_fallback:
  assumes "reaches_analysis cfg e db uid r"
    and "truthy_str (image_url r)"
    and "analyzeWithGemini (GEMINI_API_KEY e) (gemini_upstream e) = Inr macros"
    and "confidence macros \<noteq> Low"
  shows "snd (snd (serve cfg e db)) = [Call_analyzeWithGemini]
       \<and> (\<not> not_food macros \<longrightarrow>
            serve cfg e db
              = (JsonResponse (success_response macros gemini),
                 recordAIUsage cfg db uid gemini (today_of_record e),
                 [Call_analyzeWithGemini]))
       \<and> (not_food macros \<longrightarrow>
            serve cfg e db
              = (JsonError (Unable_to_estimate Image_does_not_appear_to_contain_food) 400,
                 db, [Call_analyzeWithGemini]))"
  using serve_accepted [OF assms(1) analyze_confident [OF assms(2,3,4)]]
  by (simp add: finalize_def)

text \<open>The Gemini estimate is not always returned: with calories and all three macros 0
  and confidence high, the request ends in the not-food rejection.\<close>

theorem confident_primary_no_fallback_counterexample:
  "reaches_analysis CONFIG (with_providers (Upstream_text all_zero_high_text) None Upstream_failed)
     [] example_user example_request
   \<and> truthy_str (image_url example_request)
   \<and> analyzeWithGemini (Some (js ''k'')) (Upstream_text all_zero_high_text)
       = Inr (estimate 0 0 0 0 High)
   \<and> serve CONFIG (with_providers (Upstream_text all_zero_high_text) None Upstream_failed) []
       = (JsonError (Unable_to_estimate Image_does_not_appear_to_contain_food) 400, [],
          [Call_analyzeWithGemini])"
proof -
  have g: "analyzeWithGemini (Some (js ''k'')) (Upstream_text all_zero_high_text)
             = Inr (estimate 0 0 0 0 High)"
    by (simp add: analyzeWithGemini_text text_nonempty parse_examples)
  have a: "analyze (with_providers (Upstream_text all_zero_high_text) None Upstream_failed)
             example_request
           = (Inr (estimate 0 0 0 0 High, gemini), [Call_analyzeWithGemini])"
    by (rule analyze_confident)
       (simp_all add: truthy_image_example with_providers_fields g estimate_fields)
  show ?thesis
    using serve_accepted [OF reaches_analysis_with_providers a] g
      reaches_analysis_with_providers truthy_image_example
    by (simp add: finalize_def not_food_def estimate_fields)
qed

theorem confident_primary_no_fallback_witness:
  "reaches_analysis CONFIG
     (with_providers (Upstream_text zero_macros_text) (Some (js ''k''))
        (Upstream_text medium_text))
     [] example_user example_request
   \<and> truthy_str (image_url example_request)
   \<and> analyzeWithGemini (Some (js ''k'')) (Upstream_text zero_macros_text)
       = Inr (estimate 120 0 0 0 Medium)
   \<and> not_food (estimate 120 0 0 0 Medium)
   \<and> serve CONFIG
        (with_providers (Upstream_text zero_macros_text) (Some (js ''k''))
           (Upstream_text medium_text)) []
       = (JsonError (Unable_to_estimate Image_does_not_appear_to_contain_food) 400, [],
          [Call_analyzeWithGemini])
   \<and> analyzeWithGemini (Some (js ''k'')) (Upstream_text example_text) = Inr example_macros
   \<and> \<not> not_food example_macros
   \<and> serve CONFIG
        (with_providers (Upstream_text example_text) (Some (js ''k''))
           (Upstream_text medium_text)) []
       = (JsonResponse (success_response example_macros gemini),
          recordAIUsage CONFIG [] example_user gemini 45, [Call_analyzeWithGemini])"
proof -
  have g: "analyzeWithGemini (Some (js ''k'')) (Upstream_text zero_macros_text)
             = Inr (estimate 120 0 0 0 Medium)"
    by (simp add: analyzeWithGemini_text text_nonempty parse_examples)
  have g': "analyzeWithGemini (Some (js ''k'')) (Upstream_text example_text) = Inr example_macros"
    by (simp add: analyzeWithGemini_text example_text_nonempty gemini_parse_example)
  have nf: "not_food (estimate 120 0 0 0 Medium)"
    by (simp add: not_food_def estimate_fields)
  have c: "confidence example_macros \<noteq> Low"
    by (simp add: example_macros_def)
  note r = reaches_analysis_with_providers [of "Upstream_text zero_macros_text"
      "Some (js ''k'')" "Upstream_text medium_text"]
  note r' = reaches_analysis_with_providers [of "Upstream_text example_text"
      "Some (js ''k'')" "Upstream_text medium_text"]
  from confident_primary_no_fallback [OF r truthy_image_example,
      where macros = "estimate 120 0 0 0 Medium"]
    confident_primary_no_fallback [OF r' truthy_image_example, where macros = example_macros]
    g g' nf c not_food_example r truthy_image_example
  show ?thesis
    by (simp add: with_providers_fields estimate_fields)
qed

text \<open>
  C6. The fallback only upgrades. For an image request that reaches the analysis and whose
  Gemini adapter succeeds with confidence low, the OpenAI adapter is called exactly when
  its key is configured; its estimate replaces Gemini's only when it succeeds with a
  confidence other than low; when it answers low, fails or is not configured, Gemini's
  low-confidence estimate is the one finalised. Finalising returns the estimate unless the
  not-food test rejects it.
\<close>

theorem low_confidence_fallback:
  assumes "reaches_analysis cfg e db uid r"
    and "truthy_str (image_url r)"
    and "analyzeWithGemini (GEMINI_API_KEY e) (gemini_upstream e) = Inr macros"
    and "confidence macros = Low"
  shows "(Call_analyzeWithOpenAI \<in> set (snd (snd (serve cfg e db))) \<longleftrightarrow> hasOpenAI e)
       \<and> (\<not> hasOpenAI e \<longrightarrow>
            serve cfg e db = finalize cfg e db uid macros gemini [Call_analyzeWithGemini])
       \<and> (hasOpenAI e \<longrightarrow>
            (case analyzeWithOpenAI (OPENAI_API_KEY e) (openai_upstream e) of
               Inr openAIMacros \<Rightarrow>
                 if confidence openAIMacros \<noteq> Low
                 then serve cfg e db
                        = finalize cfg e db uid openAIMacros openai
                            [Call_analyzeWithGemini, Call_analyzeWithOpenAI]
                 else serve cfg e db
                        = finalize cfg e db uid macros gemini
                            [Call_analyzeWithGemini, Call_analyzeWithOpenAI]
             | Inl openAIError \<Rightarrow>
                 serve cfg e db
                   = finalize cfg e db uid macros gemini
                       [Call_analyzeWithGemini, Call_analyzeWithOpenAI]))
       \<and> (\<forall>called. fst (finalize cfg e db uid macros gemini called)
             = (if not_food macros
                then JsonError (Unable_to_estimate Image_does_not_appear_to_contain_food) 400
                else JsonResponse (success_response macros gemini)))"
  using serve_reaches_analysis [OF assms(1)] analyze_low [OF assms(2,3,4)]
  by (auto simp: finalize_def split: sum.splits)

text \<open>The low-confidence Gemini estimate is not always returned: with calories and all
  three macros 0 and OpenAI not configured, the request ends in the not-food
  rejection.\<close>

theorem low_confidence_fallback_counterexample:
  "reaches_analysis CONFIG (with_providers (Upstream_text all_zero_low_text) None Upstream_failed)
     [] example_user example_request
   \<and> truthy_str (image_url example_request)
   \<and> \<not> hasOpenAI (with_providers (Upstream_text all_zero_low_text) None Upstream_failed)
   \<and> analyzeWithGemini (Some (js ''k'')) (Upstream_text all_zero_low_text)
       = Inr (estimate 0 0 0 0 Low)
   \<and> serve CONFIG (with_providers (Upstream_text all_zero_low_text) None Upstream_failed) []
       = (JsonError (Unable_to_estimate Image_does_not_appear_to_contain_food) 400, [],
          [Call_analyzeWithGemini])"
proof -
  have g: "analyzeWithGemini (Some (js ''k'')) (Upstream_text all_zero_low_text)
             = Inr (estimate 0 0 0 0 Low)"
    by (simp add: analyzeWithGemini_text text_nonempty parse_examples)
  have h: "\<not> hasOpenAI (with_providers (Upstream_text all_zero_low_text) None Upstream_failed)"
    by (simp add: hasOpenAI_def with_providers_fields truthy_str_def)
  have a: "analyze (with_providers (Upstream_text all_zero_low_text) None Upstream_failed)
             example_request
           = (Inr (estimate 0 0 0 0 Low, gemini), [Call_analyzeWithGemini])"
    using analyze_low [OF truthy_image_example, where macros = "estimate 0 0 0 0 Low"
        and e = "with_providers (Upstream_text all_zero_low_text) None Upstream_failed"] g h
    by (simp add: with_providers_fields estimate_fields)
  show ?thesis
    using serve_accepted [OF reaches_analysis_with_providers a] g h
      reaches_analysis_with_providers truthy_image_example
    by (simp add: finalize_def not_food_def estimate_fields)
qed

theorem low_confidence_fallback_witness:
  "reaches_analysis CONFIG (with_providers (Upstream_text low_text) None Upstream_failed)
     [] example_user example_request
   \<and> truthy_str (image_url example_request)
   \<and> analyzeWithGemini (Some (js ''k'')) (Upstream_text low_text)
       = Inr (estimate 300 10 40 9 Low)
   \<and> serve CONFIG (with_providers (Upstream_text low_text) None Upstream_failed) []
       = (JsonResponse (success_response (estimate 300 10 40 9 Low) gemini),
          recordAIUsage CONFIG [] example_user gemini 45, [Call_analyzeWithGemini])
   \<and> hasOpenAI (with_providers (Upstream_text low_text) (Some (js ''k''))
                  (Upstream_text medium_text))
   \<and> analyzeWithOpenAI (Some (js ''k'')) (Upstream_text medium_text)
       = Inr (estimate 320 12 41 10 Medium)
   \<and> serve CONFIG
        (with_providers (Upstream_text low_text) (Some (js ''k'')) (Upstream_text medium_text))
        []
       = (JsonResponse (success_response (estimate 320 12 41 10 Medium) openai),
          recordAIUsage CONFIG [] example_user openai 45,
          [Call_analyzeWithGemini, Call_analyzeWithOpenAI])
   \<and> analyzeWithOpenAI (Some (js ''k'')) (Upstream_text low_text)
       = Inr (estimate 300 10 40 9 Low)
   \<and> serve CONFIG
        (with_providers (Upstream_text low_text) (Some (js ''k'')) (Upstream_text low_text)) []
       = (JsonResponse (success_response (estimate 300 10 40 9 Low) gemini),
          recordAIUsage CONFIG [] example_user gemini 45,
          [Call_analyzeWithGemini, Call_analyzeWithOpenAI])
   \<and> analyzeWithOpenAI (Some (js ''k'')) Upstream_failed = Inl Upstream_error
   \<and> serve CONFIG
        (with_providers (Upstream_text low_text) (Some (js ''k'')) Upstream_failed) []
       = (JsonResponse (success_response (estimate 300 10 40 9 Low) gemini),
          recordAIUsage CONFIG [] example_user gemini 45,
          [Call_analyzeWithGemini, Call_analyzeWithOpenAI])"
proof -
  have g: "analyzeWithGemini (Some (js ''k'')) (Upstream_text low_text)
             = Inr (estimate 300 10 40 9 Low)"
    by (simp add: analyzeWithGemini_text text_nonempty parse_examples)
  have o1: "analyzeWithOpenAI (Some (js ''k'')) (Upstream_text medium_text)
              = Inr (estimate 320 12 41 10 Medium)"
    and o2: "analyzeWithOpenAI (Some (js ''k'')) (Upstream_text low_text)
              = Inr (estimate 300 10 40 9 Low)"
    by (simp_all add: analyzeWithOpenAI_text text_nonempty parse_examples)
  have o3: "analyzeWithOpenAI (Some (js ''k'')) Upstream_failed = Inl Upstream_error"
    by (simp add: analyzeWithOpenAI_def)
  have h: "hasOpenAI (with_providers gu (Some (js ''k'')) ou)"
    and h': "\<not> hasOpenAI (with_providers gu None ou)" for gu ou
    by (simp_all add: hasOpenAI_def with_providers_fields) (simp add: truthy_str_def)
  have nf: "\<not> not_food (estimate 300 10 40 9 Low)" "\<not> not_food (estimate 320 12 41 10 Medium)"
    by (simp_all add: not_food_def estimate_fields)
  note inst = low_confidence_fallback [OF reaches_analysis_with_providers truthy_image_example,
      where macros = "estimate 300 10 40 9 Low"]
  from inst [of "Upstream_text low_text" None Upstream_failed]
    inst [of "Upstream_text low_text" "Some (js ''k'')" "Upstream_text medium_text"]
    inst [of "Upstream_text low_text" "Some (js ''k'')" "Upstream_text low_text"]
    inst [of "Upstream_text low_text" "Some (js ''k'')" Upstream_failed]
    g o1 o2 o3 h h' nf reaches_analysis_with_providers truthy_image_example
  show ?thesis
    by (simp add: with_providers_fields estimate_fields finalize_def)
qed

text \<open>
  C7. Parse failures of the text-mode normaliser. When \<^verbatim>\<open>JSON.parse\<close> rejects the
  candidate payload, \<open>parseTextAnalysisResponse\<close> fails; the failure is
  \<open>AI_response_appears_truncated\<close> with the first 100 code units of the candidate when
  the candidate ends in a comma or does not end in \<open>}\<close>, and otherwise the generic
  \<open>Failed_to_parse_AI_response_Response\<close> with its first 200 code units. A fenced payload
  with a comma before the closing brace ends in \<open>}\<close> and gets the generic failure; a
  payload cut off after a comma gets the truncation flag. In the two image-mode
  normalisers a rejected candidate ends the normalisation with an error as well.
\<close>

theorem truncation_flag_text_mode:
  "(JSON_parse (text_cleaned text) = None \<longrightarrow>
      parseTextAnalysisResponse text
        = (if endsWith (text_cleaned text) (js '','') \<or> \<not> endsWith (text_cleaned text) (js ''}'')
           then Inl (AI_response_appears_truncated (take 100 (text_cleaned text)))
           else Inl (Failed_to_parse_AI_response_Response (take 200 (text_cleaned text)))))
   \<and> (JSON_parse (gemini_cleaned text) = None \<longrightarrow> (\<exists>err. gemini_parseAIResponse text = Inl err))
   \<and> (JSON_parse (trim text) = None \<longrightarrow> (\<exists>err. openai_parseAIResponse text = Inl err))
   \<and> parseTextAnalysisResponse fenced_trailing_comma
       = Inl (Failed_to_parse_AI_response_Response (js ''{\"calories\": 450,}''))
   \<and> parseTextAnalysisResponse truncated_text
       = Inl (AI_response_appears_truncated (js ''{\"calories\": 450,''))"
proof (intro conjI impI)
  show "parseTextAnalysisResponse fenced_trailing_comma
       = Inl (Failed_to_parse_AI_response_Response (js ''{\"calories\": 450,}''))"
    by (simp add: parseTextAnalysisResponse_def candidate_examples JSON_parse_examples
        endsWith_examples) (simp add: js_def)
  show "parseTextAnalysisResponse truncated_text
       = Inl (AI_response_appears_truncated (js ''{\"calories\": 450,''))"
    by (simp add: parseTextAnalysisResponse_def candidate_examples JSON_parse_examples
        endsWith_examples) (simp add: js_def)
qed (simp_all add: parseTextAnalysisResponse_def gemini_parseAIResponse_def
      openai_parseAIResponse_def)

text \<open>A fenced payload with a comma before its closing brace is not flagged as truncated:
  the candidate ends in \<open>}\<close>, so the text-mode normaliser reports the generic parse
  failure, and so does the Gemini image-mode normaliser.\<close>

theorem truncation_flag_text_mode_counterexample:
  "text_cleaned fenced_trailing_comma = js ''{\"calories\": 450,}''
   \<and> gemini_cleaned fenced_trailing_comma = js ''{\"calories\": 450,}''
   \<and> JSON_parse (js ''{\"calories\": 450,}'') = None
   \<and> parseTextAnalysisResponse fenced_trailing_comma
       = Inl (Failed_to_parse_AI_response_Response (js ''{\"calories\": 450,}''))
   \<and> gemini_parseAIResponse fenced_trailing_comma = Inl Failed_to_parse_AI_response_as_JSON"
  by (simp add: parseTextAnalysisResponse_def gemini_parseAIResponse_def candidate_examples
      JSON_parse_examples endsWith_examples) (simp add: js_def)

theorem truncation_flag_text_mode_witness:
  "JSON_parse (text_cleaned truncated_text) = None
   \<and> endsWith (text_cleaned truncated_text) (js '','')
   \<and> parseTextAnalysisResponse truncated_text
       = Inl (AI_response_appears_truncated (take 100 (text_cleaned truncated_text)))
   \<and> JSON_parse (gemini_cleaned fenced_trailing_comma) = None
   \<and> (\<exists>err. gemini_parseAIResponse fenced_trailing_comma = Inl err)
   \<and> JSON_parse (trim (js ''{\"calories\": 450,'')) = None
   \<and> (\<exists>err. openai_parseAIResponse (js ''{\"calories\": 450,'') = Inl err)"
proof -
  have a: "JSON_parse (text_cleaned truncated_text) = None"
    and b: "endsWith (text_cleaned truncated_text) (js '','')"
    and c: "JSON_parse (gemini_cleaned fenced_trailing_comma) = None"
    by (simp_all add: candidate_examples JSON_parse_examples endsWith_examples)
  have "trim (js ''{\"calories\": 450,'') = js ''{\"calories\": 450,''"
    by (simp add: normaliser_eval js_def)
  then have d: "JSON_parse (trim (js ''{\"calories\": 450,'')) = None"
    by (simp add: JSON_parse_examples)
  from truncation_flag_text_mode [of truncated_text]
    truncation_flag_text_mode [of fenced_trailing_comma]
    truncation_flag_text_mode [of "js ''{\"calories\": 450,''"] a b c d
  show ?thesis by simp
qed






end
